theory Spec2Isabelle
  imports Main
begin

section \<open>The TinyDNS source of octoDNS: a shallow embedding of \<^verbatim>\<open>octodns/source/tinydns.py\<close>\<close>

text \<open>
  The module turns the lines of tinydns data files into DNS records of a zone. Python
  strings are modelled as \<^typ>\<open>string\<close>, one \<^typ>\<open>char\<close> per code point below 256 (the
  range \<^verbatim>\<open>str.encode('latin1')\<close> accepts). Text decoded by the \<^verbatim>\<open>unicode-escape\<close> codec
  can hold larger code points and is a list of code points (\<^typ>\<open>nat list\<close>). Every
  exception the module can raise is a value of \<open>py_error\<close>; a function that can raise
  returns \<open>py_error + 'a\<close>, with \<open>Inl\<close> for the exception.
\<close>

subsection \<open>Exceptions\<close>

text \<open>
  The exceptions of the module and of the library functions it calls; the last three are
  raised by the zone and the record class only.
\<close>

datatype py_error =
    IndexError
  | ValueError
  | AttributeError
  | NotImplementedError
  | UnboundLocalError
  | UnicodeDecodeError
  | DuplicateRecordException
  | SubzoneRecordException
  | ValidationError

subsection \<open>Built-ins of Python used by the module\<close>

text \<open>\<^verbatim>\<open>xs[i]\<close> for \<open>i \<ge> 0\<close>: raises IndexError out of range.\<close>

definition py_index :: "'a list \<Rightarrow> nat \<Rightarrow> py_error + 'a" where
  "py_index xs i = (if i < length xs then Inr (xs ! i) else Inl IndexError)"

text \<open>\<^verbatim>\<open>xs[-1]\<close>: raises IndexError on the empty sequence.\<close>

definition py_last :: "'a list \<Rightarrow> py_error + 'a" where
  "py_last xs = (if xs = [] then Inl IndexError else Inr (last xs))"

text \<open>A list comprehension or loop whose body can raise: the first exception wins.\<close>

fun map_result :: "('a \<Rightarrow> py_error + 'b) \<Rightarrow> 'a list \<Rightarrow> py_error + 'b list" where
  "map_result f [] = Inr []"
| "map_result f (x # xs) =
     (case f x of
        Inl e \<Rightarrow> Inl e
      | Inr y \<Rightarrow> (case map_result f xs of Inl e \<Rightarrow> Inl e | Inr ys \<Rightarrow> Inr (y # ys)))"

text \<open>
  \<^verbatim>\<open>str.isspace\<close> on one character below 256: tab, line feed, vertical tab, form feed,
  carriage return, the separators 0x1c to 0x1f, space, 0x85 and 0xa0.
\<close>

definition py_isspace :: "char \<Rightarrow> bool" where
  "py_isspace c = (c \<in> set [CHR 0x09, CHR 0x0A, CHR 0x0B, CHR 0x0C, CHR 0x0D,
      CHR 0x1C, CHR 0x1D, CHR 0x1E, CHR 0x1F, CHR 0x20, CHR 0x85, CHR 0xA0])"

text \<open>\<^verbatim>\<open>s.strip()\<close>\<close>

definition py_strip :: "string \<Rightarrow> string" where
  "py_strip s = rev (dropWhile py_isspace (rev (dropWhile py_isspace s)))"

text \<open>\<^verbatim>\<open>s.split(sep)\<close> for a one-character separator: never the empty list.\<close>

fun py_split :: "char \<Rightarrow> string \<Rightarrow> string list" where
  "py_split sep [] = [[]]"
| "py_split sep (c # cs) =
     (if c = sep then [] # py_split sep cs
      else (case py_split sep cs of [] \<Rightarrow> [[c]] | f # fs \<Rightarrow> (c # f) # fs))"

text \<open>\<^verbatim>\<open>sep.join(parts)\<close>\<close>

fun py_join :: "string \<Rightarrow> string list \<Rightarrow> string" where
  "py_join sep [] = []"
| "py_join sep [x] = x"
| "py_join sep (x # y # ys) = x @ sep @ py_join sep (y # ys)"

text \<open>\<^verbatim>\<open>s.endswith(suffix)\<close>\<close>

definition py_endswith :: "string \<Rightarrow> string \<Rightarrow> bool" where
  "py_endswith s suffix = (take (length suffix) (rev s) = rev suffix)"

text \<open>\<^verbatim>\<open>s.replace(old, new)\<close> for a one-character \<open>old\<close>.\<close>

definition py_replace :: "'a \<Rightarrow> 'a list \<Rightarrow> 'a list \<Rightarrow> 'a list" where
  "py_replace old new s = concat (map (\<lambda>c. if c = old then new else [c]) s)"

text \<open>
  \<^verbatim>\<open>int(s)\<close> on a string. CPython first turns the whitespace above 127 (0x85 and 0xa0
  among the characters below 256) into spaces and then drops, on both sides, the
  whitespace of ASCII only: tab, line feed, vertical tab, form feed, carriage return
  and space. The separators 0x1c to 0x1f, which \<^verbatim>\<open>str.strip\<close> removes, are not dropped
  and make the conversion fail. Then one sign is allowed, then decimal digits, single
  underscores allowed between digits. A literal of more than 4300 digits is refused
  (\<^verbatim>\<open>sys.int_info.default_max_str_digits\<close>, the limit unless configured otherwise).
  \<open>None\<close> is ValueError.
\<close>

definition is_digit :: "char \<Rightarrow> bool" where
  "is_digit c = (c \<in> set ''0123456789'')"

definition digit_val :: "char \<Rightarrow> nat" where
  "digit_val c = of_char c - 48"

fun int_digits :: "int \<Rightarrow> string \<Rightarrow> int option" where
  "int_digits acc [] = Some acc"
| "int_digits acc [c] = (if is_digit c then Some (10 * acc + int (digit_val c)) else None)"
| "int_digits acc (c # d # ds) =
     (if is_digit c then int_digits (10 * acc + int (digit_val c)) (d # ds)
      else if c = CHR ''_'' \<and> is_digit d then int_digits (10 * acc + int (digit_val d)) ds
      else None)"

definition int_unsigned :: "string \<Rightarrow> int option" where
  "int_unsigned s =
     (case s of
        [] \<Rightarrow> None
      | c # cs \<Rightarrow> if is_digit c then int_digits (int (digit_val c)) cs else None)"

definition int_space :: "char \<Rightarrow> bool" where
  "int_space c = (c \<in> set [CHR 0x09, CHR 0x0A, CHR 0x0B, CHR 0x0C, CHR 0x0D, CHR 0x20,
      CHR 0x85, CHR 0xA0])"

definition int_strip :: "string \<Rightarrow> string" where
  "int_strip s = rev (dropWhile int_space (rev (dropWhile int_space s)))"

definition max_str_digits :: nat where
  "max_str_digits = 4300"

definition py_int :: "string \<Rightarrow> int option" where
  "py_int s =
     (case int_strip s of
        [] \<Rightarrow> None
      | c # cs \<Rightarrow>
          (let digits = (if c = CHR ''-'' \<or> c = CHR ''+'' then cs else c # cs)
           in if max_str_digits < length (filter is_digit digits) then None
              else if c = CHR ''-'' then map_option uminus (int_unsigned digits)
              else int_unsigned digits))"

subsection \<open>The standard library: \<^verbatim>\<open>textwrap\<close>, the \<^verbatim>\<open>unicode-escape\<close> codec, \<^verbatim>\<open>re\<close>, \<^verbatim>\<open>ipaddress\<close>\<close>

text \<open>
  Three parts of the standard library are not modelled and are parameters of the model:
  the Unicode name table behind \<^verbatim>\<open>\N{...}\<close>, what \<^verbatim>\<open>textwrap.wrap\<close> does with text
  that holds whitespace or hyphens (its word splitting), and the parsing of IPv6
  addresses in \<^verbatim>\<open>ipaddress.ip_address\<close> (the reverse pointer of the address, \<open>None\<close>
  when the string is no IPv6 address).
\<close>

record pylib =
  unicodedata_lookup :: "string \<Rightarrow> nat option"
  textwrap_words :: "string \<Rightarrow> nat \<Rightarrow> string list"
  ipv6_reverse_pointer :: "string \<Rightarrow> string option"

text \<open>
  \<^verbatim>\<open>textwrap.wrap(text, width)\<close> with the default options. Text without whitespace and
  without a hyphen is one long word, which \<^verbatim>\<open>break_long_words\<close> cuts into pieces of
  \<open>width\<close> characters, the last one shorter; the empty text gives no piece.
\<close>

function chunks_of :: "nat \<Rightarrow> 'a list \<Rightarrow> 'a list list" where
  "chunks_of w s = (if s = [] \<or> w = 0 then [] else take w s # chunks_of w (drop w s))"
  by pat_completeness auto
termination
  by (relation "measure (\<lambda>(w, s). length s)") auto

declare chunks_of.simps [simp del]

definition one_word :: "string \<Rightarrow> bool" where
  "one_word s = list_all (\<lambda>c. \<not> py_isspace c \<and> c \<noteq> CHR ''-'') s"

definition textwrap_wrap :: "pylib \<Rightarrow> string \<Rightarrow> nat \<Rightarrow> string list" where
  "textwrap_wrap py s width =
     (if one_word s then chunks_of width s else textwrap_words py s width)"

text \<open>
  \<^verbatim>\<open>bytes.decode('unicode-escape')\<close>, as CPython's decoder reads its input: a byte that
  is no backslash stands for its own code point; after a backslash come a line feed
  (dropped), one of the character escapes, up to three octal digits, \<^verbatim>\<open>x\<close>, \<^verbatim>\<open>u\<close> or
  \<^verbatim>\<open>U\<close> with two, four or eight hexadecimal digits, or \<^verbatim>\<open>N{name}\<close>; any other
  character is kept together with its backslash. A backslash at the end, a truncated
  escape, a value above 0x10FFFF and an unknown name raise UnicodeDecodeError.
\<close>

datatype esc_state = Plain | Esc | Oct nat nat | Hex nat nat | NameOpen | Name string

definition is_octal :: "char \<Rightarrow> bool" where
  "is_octal c = (c \<in> set ''01234567'')"

definition hex_val :: "char \<Rightarrow> nat option" where
  "hex_val c =
     (if is_digit c then Some (of_char c - 48)
      else if c \<in> set ''abcdef'' then Some (of_char c - 87)
      else if c \<in> set ''ABCDEF'' then Some (of_char c - 55)
      else None)"

definition simple_escape :: "char \<Rightarrow> nat option" where
  "simple_escape c =
     (if c = CHR 0x5C then Some 92
      else if c = CHR 0x27 then Some 39
      else if c = CHR 0x22 then Some 34
      else if c = CHR ''b'' then Some 8
      else if c = CHR ''f'' then Some 12
      else if c = CHR ''t'' then Some 9
      else if c = CHR ''n'' then Some 10
      else if c = CHR ''r'' then Some 13
      else if c = CHR ''v'' then Some 11
      else if c = CHR ''a'' then Some 7
      else None)"

definition emit :: "nat \<Rightarrow> py_error + nat list \<Rightarrow> py_error + nat list" where
  "emit x r = (case r of Inl e \<Rightarrow> Inl e | Inr xs \<Rightarrow> Inr (x # xs))"

fun ue_run :: "(string \<Rightarrow> nat option) \<Rightarrow> esc_state \<Rightarrow> string \<Rightarrow> py_error + nat list" where
  "ue_run ucd Plain [] = Inr []"
| "ue_run ucd (Oct k v) [] = Inr [v]"
| "ue_run ucd st [] = Inl UnicodeDecodeError"
| "ue_run ucd Plain (c # cs) =
     (if c = CHR 0x5C then ue_run ucd Esc cs else emit (of_char c) (ue_run ucd Plain cs))"
| "ue_run ucd Esc (c # cs) =
     (if c = CHR 0x0A then ue_run ucd Plain cs
      else (case simple_escape c of
              Some x \<Rightarrow> emit x (ue_run ucd Plain cs)
            | None \<Rightarrow>
                if is_octal c then ue_run ucd (Oct 1 (digit_val c)) cs
                else if c = CHR ''x'' then ue_run ucd (Hex 2 0) cs
                else if c = CHR ''u'' then ue_run ucd (Hex 4 0) cs
                else if c = CHR ''U'' then ue_run ucd (Hex 8 0) cs
                else if c = CHR ''N'' then ue_run ucd NameOpen cs
                else emit 92 (emit (of_char c) (ue_run ucd Plain cs))))"
| "ue_run ucd (Oct k v) (c # cs) =
     (if k < 3 \<and> is_octal c then ue_run ucd (Oct (Suc k) (8 * v + digit_val c)) cs
      else if c = CHR 0x5C then emit v (ue_run ucd Esc cs)
      else emit v (emit (of_char c) (ue_run ucd Plain cs)))"
| "ue_run ucd (Hex n v) (c # cs) =
     (case hex_val c of
        None \<Rightarrow> Inl UnicodeDecodeError
      | Some d \<Rightarrow>
          if n \<le> 1 then
            (if 16 * v + d > 0x10FFFF then Inl UnicodeDecodeError
             else emit (16 * v + d) (ue_run ucd Plain cs))
          else ue_run ucd (Hex (n - 1) (16 * v + d)) cs)"
| "ue_run ucd NameOpen (c # cs) =
     (if c = CHR ''{'' then ue_run ucd (Name []) cs else Inl UnicodeDecodeError)"
| "ue_run ucd (Name nm) (c # cs) =
     (if c = CHR ''}'' then
        (if nm = [] then Inl UnicodeDecodeError
         else (case ucd nm of
                 None \<Rightarrow> Inl UnicodeDecodeError
               | Some x \<Rightarrow> emit x (ue_run ucd Plain cs)))
      else ue_run ucd (Name (nm @ [c])) cs)"

text \<open>
  \<^verbatim>\<open>s.encode('latin1').decode('unicode-escape')\<close>: the encoding maps every character of
  the model's strings to the byte of the same number and cannot fail on them.
\<close>

definition unicode_escape :: "pylib \<Rightarrow> string \<Rightarrow> py_error + nat list" where
  "unicode_escape py s = ue_run (unicodedata_lookup py) Plain s"











text \<open>
  The two regular expressions of the module interpolate \<^verbatim>\<open>zone.name[:-1]\<close> into the
  pattern as it is. A letter, a digit, \<^verbatim>\<open>-\<close> or \<^verbatim>\<open>_\<close> of the zone name is a pattern that
  matches itself; a dot of the zone name is the pattern \<^verbatim>\<open>.\<close>, which matches any
  character but the line feed. Zone names with other characters (which \<^verbatim>\<open>re\<close> would
  read as operators) are outside the model: \<open>dns_name\<close> says a name has none.
\<close>

definition dns_char :: "char \<Rightarrow> bool" where
  "dns_char c =
     (c \<in> set ''abcdefghijklmnopqrstuvwxyzABCDEFGHIJKLMNOPQRSTUVWXYZ0123456789-_'')"

definition dns_name :: "string \<Rightarrow> bool" where
  "dns_name s = list_all (\<lambda>c. dns_char c \<or> c = CHR ''.'') s"

definition re_char :: "char \<Rightarrow> char \<Rightarrow> bool" where
  "re_char p c = (if p = CHR ''.'' then c \<noteq> CHR 0x0A else c = p)"

text \<open>The interpolated zone name matched at the start of \<open>s\<close>: what is left of \<open>s\<close>.\<close>

fun re_prefix :: "string \<Rightarrow> string \<Rightarrow> string option" where
  "re_prefix [] s = Some s"
| "re_prefix (p # ps) [] = None"
| "re_prefix (p # ps) (c # cs) = (if re_char p c then re_prefix ps cs else None)"

text \<open>\<^verbatim>\<open>\.?$\<close>: an optional dot, then the end of the string or its final line feed.\<close>

definition re_tail :: "string \<Rightarrow> bool" where
  "re_tail s = (s \<in> set [[], ''.'', [CHR 0x0A], [CHR ''.'', CHR 0x0A]])"

text \<open>\<^verbatim>\<open>{zone.name[:-1]}\.?$\<close> matched against all of \<open>s\<close>.\<close>

definition zone_re :: "string \<Rightarrow> string \<Rightarrow> bool" where
  "zone_re zname s =
     (case re_prefix (butlast zname) s of None \<Rightarrow> False | Some rest \<Rightarrow> re_tail rest)"

text \<open>
  \<^verbatim>\<open>(?P<name>.+)\.{zone.name[:-1]}\.?$\<close> from the start of \<open>s\<close>: the lengths the group
  \<^verbatim>\<open>name\<close> can have, longest first, which is the order the greedy \<^verbatim>\<open>.+\<close> tries them in.
\<close>

definition name_candidates :: "string \<Rightarrow> string \<Rightarrow> nat list" where
  "name_candidates zname s =
     filter (\<lambda>n. CHR 0x0A \<notin> set (take n s) \<and> s ! n = CHR ''.'' \<and> zone_re zname (drop (Suc n) s))
       (rev [1..<length s])"

text \<open>\<^verbatim>\<open>re.compile(fr'((?P<name>.+)\.)?{zone.name[:-1]}\.?$').match(s)\<close>, as a truth value.\<close>

definition name_re_match :: "string \<Rightarrow> string \<Rightarrow> bool" where
  "name_re_match zname s = (name_candidates zname s \<noteq> [] \<or> zone_re zname s)"

text \<open>
  \<^verbatim>\<open>re.compile(fr'(?P<name>.+)\.{zone.name[:-1]}\.?$').match(s)\<close>: \<open>None\<close> when there is
  no match, and the group \<^verbatim>\<open>name\<close> of the match otherwise.
\<close>

definition in_addr_re_match :: "string \<Rightarrow> string \<Rightarrow> string option" where
  "in_addr_re_match zname s =
     (case name_candidates zname s of [] \<Rightarrow> None | n # _ \<Rightarrow> Some (take n s))"

text \<open>
  \<^verbatim>\<open>ipaddress.ip_address(s).reverse_pointer\<close>. An IPv4 address is four decimal octets
  of at most three ASCII digits, without leading zeros, each at most 255; its reverse
  pointer lists the octets in reverse before \<^verbatim>\<open>.in-addr.arpa\<close>. A string that is no IPv4
  address is tried as an IPv6 address; one that is neither raises ValueError.
\<close>

definition parse_octet :: "string \<Rightarrow> nat option" where
  "parse_octet s =
     (if s = [] \<or> \<not> list_all is_digit s \<or> length s > 3 \<or> (s \<noteq> ''0'' \<and> hd s = CHR ''0'')
      then None
      else (let n = foldl (\<lambda>a c. 10 * a + digit_val c) 0 s
            in if n > 255 then None else Some n))"

definition ipv4_parse :: "string \<Rightarrow> nat list option" where
  "ipv4_parse s =
     (if s = [] \<or> CHR ''/'' \<in> set s then None
      else (let octets = py_split (CHR ''.'') s
            in if length octets \<noteq> 4 then None else those (map parse_octet octets)))"

definition dec_digit :: "nat \<Rightarrow> char" where
  "dec_digit n = char_of (48 + n)"

definition dec_octet :: "nat \<Rightarrow> string" where
  "dec_octet n =
     (if n < 10 then [dec_digit n]
      else if n < 100 then [dec_digit (n div 10), dec_digit (n mod 10)]
      else [dec_digit (n div 100), dec_digit (n div 10 mod 10), dec_digit (n mod 10)])"

definition ipv4_reverse_pointer :: "nat list \<Rightarrow> string" where
  "ipv4_reverse_pointer octets = py_join ''.'' (rev (map dec_octet octets)) @ ''.in-addr.arpa''"

definition reverse_pointer :: "pylib \<Rightarrow> string \<Rightarrow> py_error + string" where
  "reverse_pointer py s =
     (case ipv4_parse s of
        Some octets \<Rightarrow> Inr (ipv4_reverse_pointer octets)
      | None \<Rightarrow> (case ipv6_reverse_pointer py s of None \<Rightarrow> Inl ValueError | Some p \<Rightarrow> Inr p))"

subsection \<open>The data of the module\<close>

text \<open>
  A tokenized line is the list of its fields. A handler yields events
  \<^verbatim>\<open>(_type, name, values)\<close>; a value is a string, a decoded TXT text, or the dictionary
  \<^verbatim>\<open>{'preference': dist, 'exchange': mx}\<close> of an MX line, whose preference is the field
  of the line or the integer \<open>0\<close>.
\<close>

type_synonym line = "string list"

datatype pref = PrefStr string | PrefInt int

datatype rvalue = Str string | Txt "nat list" | MX pref string

type_synonym event = "string \<times> string \<times> rvalue list"

text \<open>
  The dictionary handed to \<^verbatim>\<open>Record.new\<close>: \<^verbatim>\<open>ttl\<close> (an integer, or the field of a line
  as it stands), \<^verbatim>\<open>type\<close>, and either \<^verbatim>\<open>value\<close> or \<^verbatim>\<open>values\<close>.
\<close>

datatype ttl_val = TtlInt int | TtlStr string

datatype payload = Value rvalue | Values "rvalue list"

record rdata =
  data_ttl :: ttl_val
  data_type :: string
  data_payload :: payload

text \<open>
  The source object \<^verbatim>\<open>self\<close>. \<open>split_re\<close> is what the attribute lookup \<^verbatim>\<open>self.split_re\<close>
  finds: neither \<^verbatim>\<open>TinyDnsBaseSource\<close> nor \<^verbatim>\<open>TinyDnsFileSource\<close> defines or assigns
  such an attribute, so it is \<open>None\<close> (the lookup raises AttributeError) unless the
  base class \<^verbatim>\<open>BaseSource\<close>, which is not part of the module, supplies a splitter
  (the \<^verbatim>\<open>split\<close> of a compiled pattern). \<open>source_lines\<close> is what \<^verbatim>\<open>self._lines()\<close> returns.
\<close>

record source =
  default_ttl :: int
  split_re :: "(string \<Rightarrow> string list) option"
  source_lines :: "string list"

text \<open>
  \<^verbatim>\<open>TinyDnsFileSource._lines\<close>: the non-empty lines of every file of the directory whose
  name does not start with a dot, in the order of \<^verbatim>\<open>listdir\<close>. The directory is given as
  the list of its file names with their contents. (The result is cached by the source;
  the cache does not change what is returned.)
\<close>

definition file_source_lines :: "(string \<times> string) list \<Rightarrow> string list" where
  "file_source_lines dir =
     concat (map (\<lambda>(filename, content). filter (\<lambda>l. l \<noteq> []) (py_split (CHR 0x0A) content))
       (filter (\<lambda>(filename, content). take 1 filename \<noteq> ''.'') dir))"

text \<open>
  The zone and the record class are collaborators outside the module. The model takes
  from them the zone's name, \<^verbatim>\<open>zone.hostname_from_fqdn\<close>, \<^verbatim>\<open>Record.new(zone, name, data,
  source=..., lenient=...)\<close> (the source is \<open>None\<close> where the call passes none) and
  \<^verbatim>\<open>zone.add_record(record, lenient=...)\<close>, the last one acting on the records the zone
  holds (\<open>zone_records\<close>); both may raise.
\<close>

record ('z, 'r) zone =
  zone_name :: string
  hostname_from_fqdn :: "string \<Rightarrow> string"
  Record_new :: "string \<Rightarrow> rdata \<Rightarrow> source option \<Rightarrow> bool \<Rightarrow> py_error + 'r"
  add_record :: "'z \<Rightarrow> 'r \<Rightarrow> bool \<Rightarrow> py_error + 'z"
  zone_records :: 'z

text \<open>
  \<^verbatim>\<open>defaultdict\<close>: a dictionary is the list of its items in insertion order.
  \<open>dd_update k dflt f d\<close> is \<^verbatim>\<open>d[k] = f(d[k])\<close>, the missing key created with \<open>dflt\<close>;
  \<open>dd_get d k dflt\<close> reads \<^verbatim>\<open>d[k]\<close>.
\<close>

fun dd_update :: "'k \<Rightarrow> 'v \<Rightarrow> ('v \<Rightarrow> 'v) \<Rightarrow> ('k \<times> 'v) list \<Rightarrow> ('k \<times> 'v) list" where
  "dd_update k dflt f [] = [(k, f dflt)]"
| "dd_update k dflt f ((k', v) # d) =
     (if k' = k then (k', f v) # d else (k', v) # dd_update k dflt f d)"

definition dd_get :: "('k \<times> 'v) list \<Rightarrow> 'k \<Rightarrow> 'v \<Rightarrow> 'v" where
  "dd_get d k dflt = (case map_of d k of None \<Rightarrow> dflt | Some v \<Rightarrow> v)"

type_synonym symbols = "(char \<times> (string \<times> line list) list) list"

type_synonym types = "(string \<times> (string \<times> rvalue list) list) list"

type_synonym ttls = "(string \<times> (string \<times> int) list) list"

subsection \<open>The symbol handlers\<close>

text \<open>
  The scan for a TTL that every handler repeats:
  \<^verbatim>\<open>for line in lines: try: ttl = int(lines[0][idx]); break; except IndexError: pass\<close>.
  Every round reads \<^verbatim>\<open>lines[0]\<close>; only IndexError is caught, so a field that is no integer
  raises ValueError.
\<close>

fun ttl_loop :: "line list \<Rightarrow> nat \<Rightarrow> int \<Rightarrow> line list \<Rightarrow> py_error + int" where
  "ttl_loop lines idx ttl [] = Inr ttl"
| "ttl_loop lines idx ttl (line # rest) =
     (case py_index lines 0 of
        Inl e \<Rightarrow> ttl_loop lines idx ttl rest
      | Inr first \<Rightarrow>
          (case py_index first idx of
             Inl e \<Rightarrow> ttl_loop lines idx ttl rest
           | Inr field \<Rightarrow> (case py_int field of None \<Rightarrow> Inl ValueError | Some t \<Rightarrow> Inr t)))"

definition find_ttl :: "source \<Rightarrow> line list \<Rightarrow> nat \<Rightarrow> py_error + int" where
  "find_ttl self lines idx = ttl_loop lines idx (default_ttl self) lines"

text \<open>\<^verbatim>\<open>_records_for_plus\<close>: \<^verbatim>\<open>+fqdn:ip:ttl:timestamp:lo\<close>, an A record.\<close>

definition records_for_plus ::
  "pylib \<Rightarrow> source \<Rightarrow> ('z, 'r) zone \<Rightarrow> string \<Rightarrow> line list \<Rightarrow> bool \<Rightarrow> py_error + event list" where
  "records_for_plus py self zone name lines in_addr =
     (if in_addr then Inr []
      else (case map_result (\<lambda>l. py_index l 1) lines of
              Inl e \<Rightarrow> Inl e
            | Inr addrs \<Rightarrow>
                (let ips = filter (\<lambda>ip. ip \<noteq> ''0.0.0.0'') addrs
                 in if ips = [] then Inr []
                    else (case find_ttl self lines 2 of
                            Inl e \<Rightarrow> Inl e
                          | Inr ttl \<Rightarrow> Inr [(''A'', name, map Str ips)]))))"

text \<open>
  \<^verbatim>\<open>_records_for_caret\<close>: a plain function, no generator. It returns the empty list
  unless \<^verbatim>\<open>in_addr\<close> is set, and raises NotImplementedError when it is.
\<close>

definition records_for_caret ::
  "pylib \<Rightarrow> source \<Rightarrow> ('z, 'r) zone \<Rightarrow> string \<Rightarrow> line list \<Rightarrow> bool \<Rightarrow> py_error + event list" where
  "records_for_caret py self zone name lines in_addr =
     (if \<not> in_addr then Inr [] else Inl NotImplementedError)"

text \<open>\<^verbatim>\<open>_records_for_equal\<close>: the events of \<^verbatim>\<open>+\<close>, then those of \<^verbatim>\<open>^\<close>.\<close>

definition records_for_equal ::
  "pylib \<Rightarrow> source \<Rightarrow> ('z, 'r) zone \<Rightarrow> string \<Rightarrow> line list \<Rightarrow> bool \<Rightarrow> py_error + event list" where
  "records_for_equal py self zone name lines in_addr =
     (case records_for_plus py self zone name lines in_addr of
        Inl e \<Rightarrow> Inl e
      | Inr evs \<Rightarrow>
          (case records_for_caret py self zone name lines in_addr of
             Inl e \<Rightarrow> Inl e
           | Inr evs' \<Rightarrow> Inr (evs @ evs')))"

text \<open>\<^verbatim>\<open>_records_for_C\<close>: \<^verbatim>\<open>Cfqdn:p:ttl:timestamp:lo\<close>, a CNAME record from the first line.\<close>

definition records_for_C ::
  "pylib \<Rightarrow> source \<Rightarrow> ('z, 'r) zone \<Rightarrow> string \<Rightarrow> line list \<Rightarrow> bool \<Rightarrow> py_error + event list" where
  "records_for_C py self zone name lines in_addr =
     (if in_addr then Inr []
      else (case py_index lines 0 of
              Inl e \<Rightarrow> Inl e
            | Inr first \<Rightarrow>
                (case py_index first 1 of
                   Inl e \<Rightarrow> Inl e
                 | Inr target \<Rightarrow>
                     (case py_last target of
                        Inl e \<Rightarrow> Inl e
                      | Inr c \<Rightarrow>
                          (case find_ttl self lines 2 of
                             Inl e \<Rightarrow> Inl e
                           | Inr ttl \<Rightarrow>
                               Inr [(''CNAME'', name,
                                     [Str (if c \<noteq> CHR ''.'' then target @ ''.'' else target)])])))))"

text \<open>
  \<^verbatim>\<open>_records_for_dot\<close> (also \<^verbatim>\<open>_records_for_amp\<close>): \<^verbatim>\<open>.fqdn:ip:x:ttl:timestamp:lo\<close>, an NS
  record and an A record for every line with an address. \<open>dot_loop\<close> is the loop over
  the lines: the A events in the order they are yielded, and the NS values.
\<close>

fun dot_loop :: "('z, 'r) zone \<Rightarrow> line list \<Rightarrow> py_error + (event list \<times> rvalue list)" where
  "dot_loop zone [] = Inr ([], [])"
| "dot_loop zone (line # rest) =
     (case py_index line 2 of
        Inl e \<Rightarrow> Inl e
      | Inr field \<Rightarrow>
          (let ns = (if CHR ''.'' \<notin> set field then field @ ''.ns.'' @ zone_name zone
                     else if last field \<noteq> CHR ''.'' then field @ ''.''
                     else field)
           in (case py_index line 1 of
                 Inl e \<Rightarrow> Inl e
               | Inr ip \<Rightarrow>
                   (case dot_loop zone rest of
                      Inl e \<Rightarrow> Inl e
                    | Inr (evs, vals) \<Rightarrow>
                        Inr ((if ip \<noteq> [] then [(''A'', hostname_from_fqdn zone ns, [Str ip])]
                              else []) @ evs,
                             Str ns # vals)))))"

definition records_for_dot ::
  "pylib \<Rightarrow> source \<Rightarrow> ('z, 'r) zone \<Rightarrow> string \<Rightarrow> line list \<Rightarrow> bool \<Rightarrow> py_error + event list" where
  "records_for_dot py self zone name lines in_addr =
     (if in_addr then Inr []
      else (case find_ttl self lines 3 of
              Inl e \<Rightarrow> Inl e
            | Inr ttl \<Rightarrow>
                (case dot_loop zone lines of
                   Inl e \<Rightarrow> Inl e
                 | Inr (evs, vals) \<Rightarrow> Inr (evs @ [(''NS'', name, vals)]))))"

text \<open>
  \<^verbatim>\<open>_records_for_at\<close>: \<^verbatim>\<open>@fqdn:ip:x:dist:ttl:timestamp:lo\<close>, an MX record and an A record
  for every line with an address. The distance is \<^verbatim>\<open>line[3] or 0\<close>, and \<open>0\<close> when the
  line has no such field.
\<close>

fun at_loop :: "('z, 'r) zone \<Rightarrow> line list \<Rightarrow> py_error + (event list \<times> rvalue list)" where
  "at_loop zone [] = Inr ([], [])"
| "at_loop zone (line # rest) =
     (case py_index line 2 of
        Inl e \<Rightarrow> Inl e
      | Inr field \<Rightarrow>
          (let mx = (if CHR ''.'' \<notin> set field then field @ ''.ns.'' @ zone_name zone
                     else if last field \<noteq> CHR ''.'' then field @ ''.''
                     else field);
               dist = (case py_index line 3 of
                         Inl e \<Rightarrow> PrefInt 0
                       | Inr d \<Rightarrow> if d = [] then PrefInt 0 else PrefStr d)
           in (case py_index line 1 of
                 Inl e \<Rightarrow> Inl e
               | Inr ip \<Rightarrow>
                   (case at_loop zone rest of
                      Inl e \<Rightarrow> Inl e
                    | Inr (evs, vals) \<Rightarrow>
                        Inr ((if ip \<noteq> [] then [(''A'', hostname_from_fqdn zone mx, [Str ip])]
                              else []) @ evs,
                             MX dist mx # vals)))))"

definition records_for_at ::
  "pylib \<Rightarrow> source \<Rightarrow> ('z, 'r) zone \<Rightarrow> string \<Rightarrow> line list \<Rightarrow> bool \<Rightarrow> py_error + event list" where
  "records_for_at py self zone name lines in_addr =
     (if in_addr then Inr []
      else (case find_ttl self lines 4 of
              Inl e \<Rightarrow> Inl e
            | Inr ttl \<Rightarrow>
                (case at_loop zone lines of
                   Inl e \<Rightarrow> Inl e
                 | Inr (evs, vals) \<Rightarrow> Inr (evs @ [(''MX'', name, vals)]))))"

text \<open>
  \<^verbatim>\<open>_records_for_quote\<close>: \<^verbatim>\<open>'fqdn:s:ttl:timestamp:lo\<close>, a TXT record. Every text is
  \<^verbatim>\<open>l[1].encode('latin1').decode('unicode-escape').replace(";", "\;")\<close>.
\<close>

definition txt_value :: "pylib \<Rightarrow> line \<Rightarrow> py_error + nat list" where
  "txt_value py l =
     (case py_index l 1 of
        Inl e \<Rightarrow> Inl e
      | Inr field \<Rightarrow>
          (case unicode_escape py field of
             Inl e \<Rightarrow> Inl e
           | Inr decoded \<Rightarrow> Inr (py_replace 59 [92, 59] decoded)))"

definition records_for_quote ::
  "pylib \<Rightarrow> source \<Rightarrow> ('z, 'r) zone \<Rightarrow> string \<Rightarrow> line list \<Rightarrow> bool \<Rightarrow> py_error + event list" where
  "records_for_quote py self zone name lines in_addr =
     (if in_addr then Inr []
      else (case map_result (txt_value py) lines of
              Inl e \<Rightarrow> Inl e
            | Inr texts \<Rightarrow>
                (case find_ttl self lines 2 of
                   Inl e \<Rightarrow> Inl e
                 | Inr ttl \<Rightarrow> Inr [(''TXT'', name, map Txt texts)])))"

text \<open>
  \<^verbatim>\<open>_records_for_three\<close>: \<^verbatim>\<open>3fqdn:ip:ttl:timestamp:lo\<close>, an AAAA record. Every address is
  \<^verbatim>\<open>':'.join(textwrap.wrap(line[1], 4))\<close>.
\<close>

definition aaaa_value :: "pylib \<Rightarrow> line \<Rightarrow> py_error + string" where
  "aaaa_value py l =
     (case py_index l 1 of
        Inl e \<Rightarrow> Inl e
      | Inr field \<Rightarrow> Inr (py_join '':'' (textwrap_wrap py field 4)))"

definition records_for_three ::
  "pylib \<Rightarrow> source \<Rightarrow> ('z, 'r) zone \<Rightarrow> string \<Rightarrow> line list \<Rightarrow> bool \<Rightarrow> py_error + event list" where
  "records_for_three py self zone name lines in_addr =
     (if in_addr then Inr []
      else (case map_result (aaaa_value py) lines of
              Inl e \<Rightarrow> Inl e
            | Inr ips \<Rightarrow>
                (case find_ttl self lines 2 of
                   Inl e \<Rightarrow> Inl e
                 | Inr ttl \<Rightarrow> Inr [(''AAAA'', name, map Str ips)])))"

text \<open>\<^verbatim>\<open>_records_for_six\<close>: the events of \<^verbatim>\<open>3\<close>, then those of \<^verbatim>\<open>^\<close>.\<close>

definition records_for_six ::
  "pylib \<Rightarrow> source \<Rightarrow> ('z, 'r) zone \<Rightarrow> string \<Rightarrow> line list \<Rightarrow> bool \<Rightarrow> py_error + event list" where
  "records_for_six py self zone name lines in_addr =
     (case records_for_three py self zone name lines in_addr of
        Inl e \<Rightarrow> Inl e
      | Inr evs \<Rightarrow>
          (case records_for_caret py self zone name lines in_addr of
             Inl e \<Rightarrow> Inl e
           | Inr evs' \<Rightarrow> Inr (evs @ evs')))"

text \<open>\<^verbatim>\<open>SYMBOL_MAP.get(symbol, None)\<close>\<close>

definition SYMBOL_MAP ::
  "char \<Rightarrow> (pylib \<Rightarrow> source \<Rightarrow> ('z, 'r) zone \<Rightarrow> string \<Rightarrow> line list \<Rightarrow> bool \<Rightarrow> py_error + event list) option" where
  "SYMBOL_MAP symbol =
     (if symbol = CHR ''='' then Some records_for_equal
      else if symbol = CHR ''^'' then Some records_for_caret
      else if symbol = CHR ''.'' then Some records_for_dot
      else if symbol = CHR ''C'' then Some records_for_C
      else if symbol = CHR ''+'' then Some records_for_plus
      else if symbol = CHR ''@'' then Some records_for_at
      else if symbol = CHR ''&'' then Some records_for_dot
      else if symbol = CHR 0x27 then Some records_for_quote
      else if symbol = CHR ''3'' then Some records_for_three
      else if symbol = CHR ''6'' then Some records_for_six
      else None)"

subsection \<open>Grouping the lines, and the values of every record\<close>

text \<open>
  The tokenizer of \<^verbatim>\<open>_process_lines\<close>: the text after the symbol, up to the first
  \<^verbatim>\<open>#\<close>, split at every colon, every field stripped.
\<close>

definition tokenize :: "string \<Rightarrow> line" where
  "tokenize body = map py_strip (py_split (CHR '':'') (takeWhile (\<lambda>c. c \<noteq> CHR ''#'') body))"

text \<open>
  \<^verbatim>\<open>_process_lines\<close>: the lines whose first field matches the pattern of the zone,
  grouped by symbol, then by \<^verbatim>\<open>zone.hostname_from_fqdn(name)\<close>. \<open>lines_loop\<close> is the
  loop, \<open>data\<close> the dictionary it fills.
\<close>

fun lines_loop :: "('z, 'r) zone \<Rightarrow> symbols \<Rightarrow> string list \<Rightarrow> py_error + symbols" where
  "lines_loop zone data [] = Inr data"
| "lines_loop zone data (l # rest) =
     (case l of
        [] \<Rightarrow> Inl IndexError
      | symbol # body \<Rightarrow>
          (case py_index (tokenize body) 0 of
             Inl e \<Rightarrow> Inl e
           | Inr name \<Rightarrow>
               if \<not> name_re_match (zone_name zone) name then lines_loop zone data rest
               else lines_loop zone
                      (dd_update symbol []
                         (dd_update (hostname_from_fqdn zone name) [] (\<lambda>ls. ls @ [tokenize body]))
                         data)
                      rest))"

definition process_lines :: "('z, 'r) zone \<Rightarrow> string list \<Rightarrow> py_error + symbols" where
  "process_lines zone lines = lines_loop zone [] lines"

text \<open>
  \<^verbatim>\<open>_process_symbols\<close>. \<open>extend_types\<close> consumes the events of one handler call
  (\<^verbatim>\<open>types[_type][name].extend(values)\<close>), \<open>names_loop\<close> is the loop over the names of one
  symbol and \<open>symbols_loop\<close> the loop over the symbols. The dictionary \<^verbatim>\<open>ttls\<close> is
  created and returned; no statement of the module stores into it.
\<close>

fun extend_types :: "types \<Rightarrow> event list \<Rightarrow> types" where
  "extend_types types [] = types"
| "extend_types types ((ty, name, vals) # evs) =
     extend_types (dd_update ty [] (dd_update name [] (\<lambda>vs. vs @ vals)) types) evs"

fun names_loop ::
  "(string \<Rightarrow> line list \<Rightarrow> py_error + event list) \<Rightarrow> types \<Rightarrow> (string \<times> line list) list
     \<Rightarrow> py_error + types" where
  "names_loop records_for types [] = Inr types"
| "names_loop records_for types ((name, lines) # rest) =
     (case records_for name lines of
        Inl e \<Rightarrow> Inl e
      | Inr evs \<Rightarrow> names_loop records_for (extend_types types evs) rest)"

fun symbols_loop ::
  "pylib \<Rightarrow> source \<Rightarrow> ('z, 'r) zone \<Rightarrow> types \<Rightarrow> symbols \<Rightarrow> py_error + types" where
  "symbols_loop py self zone types [] = Inr types"
| "symbols_loop py self zone types ((symbol, names) # rest) =
     (case SYMBOL_MAP symbol of
        None \<Rightarrow> symbols_loop py self zone types rest
      | Some records_for \<Rightarrow>
          (case names_loop (\<lambda>name lines. records_for py self zone name lines False) types names of
             Inl e \<Rightarrow> Inl e
           | Inr types' \<Rightarrow> symbols_loop py self zone types' rest))"

definition process_symbols ::
  "pylib \<Rightarrow> source \<Rightarrow> ('z, 'r) zone \<Rightarrow> symbols \<Rightarrow> py_error + (types \<times> ttls)" where
  "process_symbols py self zone symbols =
     (case symbols_loop py self zone [] symbols of
        Inl e \<Rightarrow> Inl e
      | Inr types \<Rightarrow> Inr (types, []))"

subsection \<open>Populating a zone\<close>

text \<open>
  A population changes the zone in place, so it returns the zone as it has left it
  together with the exception that ended it, if one did.

  The body of the loops of \<^verbatim>\<open>_populate_normal\<close>: the dictionary \<^verbatim>\<open>data\<close> of one name, the
  record made from it, and the record added to the zone; a SubzoneRecordException of
  \<^verbatim>\<open>add_record\<close> is caught.
\<close>

definition normal_data :: "source \<Rightarrow> ttls \<Rightarrow> string \<Rightarrow> string \<Rightarrow> rvalue list \<Rightarrow> py_error + rdata" where
  "normal_data self ttls ty name vals =
     (let t = TtlInt (dd_get (dd_get ttls ty []) name (default_ttl self))
      in if length vals > 1
         then Inr \<lparr>data_ttl = t, data_type = ty, data_payload = Values vals\<rparr>
         else (case py_index vals 0 of
                 Inl e \<Rightarrow> Inl e
               | Inr v \<Rightarrow> Inr \<lparr>data_ttl = t, data_type = ty, data_payload = Value v\<rparr>))"

fun add_names ::
  "source \<Rightarrow> ttls \<Rightarrow> bool \<Rightarrow> string \<Rightarrow> ('z, 'r) zone \<Rightarrow> (string \<times> rvalue list) list
     \<Rightarrow> ('z, 'r) zone \<times> py_error option" where
  "add_names self ttls lenient ty zone [] = (zone, None)"
| "add_names self ttls lenient ty zone ((name, vals) # rest) =
     (case normal_data self ttls ty name vals of
        Inl e \<Rightarrow> (zone, Some e)
      | Inr data \<Rightarrow>
          (case Record_new zone name data None lenient of
             Inl e \<Rightarrow> (zone, Some e)
           | Inr r \<Rightarrow>
               (case add_record zone (zone_records zone) r lenient of
                  Inl e \<Rightarrow>
                    if e = SubzoneRecordException then add_names self ttls lenient ty zone rest
                    else (zone, Some e)
                | Inr recs \<Rightarrow>
                    add_names self ttls lenient ty (zone\<lparr>zone_records := recs\<rparr>) rest)))"

fun add_types ::
  "source \<Rightarrow> ttls \<Rightarrow> bool \<Rightarrow> ('z, 'r) zone \<Rightarrow> types \<Rightarrow> ('z, 'r) zone \<times> py_error option" where
  "add_types self ttls lenient zone [] = (zone, None)"
| "add_types self ttls lenient zone ((ty, names) # rest) =
     (case add_names self ttls lenient ty zone names of
        (zone', Some e) \<Rightarrow> (zone', Some e)
      | (zone', None) \<Rightarrow> add_types self ttls lenient zone' rest)"

text \<open>\<^verbatim>\<open>_populate_normal\<close>\<close>

definition populate_normal ::
  "pylib \<Rightarrow> source \<Rightarrow> ('z, 'r) zone \<Rightarrow> bool \<Rightarrow> ('z, 'r) zone \<times> py_error option" where
  "populate_normal py self zone lenient =
     (case process_lines zone (source_lines self) of
        Inl e \<Rightarrow> (zone, Some e)
      | Inr symbols \<Rightarrow>
          (case process_symbols py self zone symbols of
             Inl e \<Rightarrow> (zone, Some e)
           | Inr (types, ttls) \<Rightarrow> add_types self ttls lenient zone types))"

text \<open>
  \<^verbatim>\<open>_populate_in_addr_arpa\<close>. \<open>ptr_match\<close> is the \<^verbatim>\<open>if\<close> that chooses what is matched
  against the pattern of the zone: it gives the match, the value and the binding of
  the local variable \<^verbatim>\<open>addr\<close>, which only the second branch assigns. \<open>in_addr_loop\<close> is
  the loop over the lines; the warning for a duplicate record formats \<^verbatim>\<open>addr\<close> and
  raises UnboundLocalError while that variable has no value.
\<close>

definition ptr_match ::
  "pylib \<Rightarrow> string \<Rightarrow> line \<Rightarrow> string \<Rightarrow> string option
     \<Rightarrow> py_error + (string option \<times> string \<times> string option)" where
  "ptr_match py zname line first addr =
     (if py_endswith first ''in-addr.arpa''
      then (case py_index line 1 of
              Inl e \<Rightarrow> Inl e
            | Inr v \<Rightarrow> Inr (in_addr_re_match zname first, v, addr))
      else (case py_index line 1 of
              Inl e \<Rightarrow> Inl e
            | Inr a \<Rightarrow>
                (case reverse_pointer py a of
                   Inl e \<Rightarrow> Inl e
                 | Inr p \<Rightarrow> Inr (in_addr_re_match zname p, first, Some a))))"

definition ptr_data :: "source \<Rightarrow> line \<Rightarrow> string \<Rightarrow> py_error + rdata" where
  "ptr_data self line v =
     (let t = (case py_index line 2 of Inl e \<Rightarrow> TtlInt (default_ttl self) | Inr f \<Rightarrow> TtlStr f)
      in (case py_last v of
            Inl e \<Rightarrow> Inl e
          | Inr c \<Rightarrow>
              Inr \<lparr>data_ttl = t, data_type = ''PTR'',
                   data_payload = Value (Str (if c \<noteq> CHR ''.'' then v @ ''.'' else v))\<rparr>))"

fun in_addr_loop ::
  "pylib \<Rightarrow> source \<Rightarrow> bool \<Rightarrow> string option \<Rightarrow> ('z, 'r) zone \<Rightarrow> string list
     \<Rightarrow> ('z, 'r) zone \<times> py_error option" where
  "in_addr_loop py self lenient addr zone [] = (zone, None)"
| "in_addr_loop py self lenient addr zone (l # rest) =
     (case l of
        [] \<Rightarrow> (zone, Some IndexError)
      | symbol # body \<Rightarrow>
          if symbol \<notin> set ''=^&'' then in_addr_loop py self lenient addr zone rest
          else (case split_re self of
                  None \<Rightarrow> (zone, Some AttributeError)
                | Some split \<Rightarrow>
                    (let line = map py_strip (split (takeWhile (\<lambda>c. c \<noteq> CHR ''#'') body))
                     in (case py_index line 0 of
                           Inl e \<Rightarrow> (zone, Some e)
                         | Inr first \<Rightarrow>
                             (case ptr_match py (zone_name zone) line first addr of
                                Inl e \<Rightarrow> (zone, Some e)
                              | Inr (None, v, addr') \<Rightarrow>
                                  in_addr_loop py self lenient addr' zone rest
                              | Inr (Some name, v, addr') \<Rightarrow>
                                  (case ptr_data self line v of
                                     Inl e \<Rightarrow> (zone, Some e)
                                   | Inr data \<Rightarrow>
                                       (case Record_new zone name data (Some self) lenient of
                                          Inl e \<Rightarrow> (zone, Some e)
                                        | Inr r \<Rightarrow>
                                            (case add_record zone (zone_records zone) r lenient of
                                               Inl e \<Rightarrow>
                                                 if e = DuplicateRecordException
                                                 then (if addr' = None
                                                       then (zone, Some UnboundLocalError)
                                                       else in_addr_loop py self lenient addr' zone rest)
                                                 else (zone, Some e)
                                             | Inr recs \<Rightarrow>
                                                 in_addr_loop py self lenient addr'
                                                   (zone\<lparr>zone_records := recs\<rparr>) rest))))))))"

definition populate_in_addr_arpa ::
  "pylib \<Rightarrow> source \<Rightarrow> ('z, 'r) zone \<Rightarrow> bool \<Rightarrow> ('z, 'r) zone \<times> py_error option" where
  "populate_in_addr_arpa py self zone lenient =
     in_addr_loop py self lenient None zone (source_lines self)"

text \<open>\<^verbatim>\<open>populate\<close>\<close>

definition populate ::
  "pylib \<Rightarrow> source \<Rightarrow> ('z, 'r) zone \<Rightarrow> bool \<Rightarrow> ('z, 'r) zone \<times> py_error option" where
  "populate py self zone lenient =
     (if py_endswith (zone_name zone) ''in-addr.arpa.''
      then populate_in_addr_arpa py self zone lenient
      else populate_normal py self zone lenient)"

subsection \<open>Collaborators for the examples\<close>

text \<open>
  Modelled from the spec: the zone object is not part of the module. The spec asks of it
  "a function to strip the zone suffix from a fully-qualified name yielding a
  zone-relative name"; \<open>strip_zone_suffix\<close> is such a function, used by the examples only.
\<close>

definition strip_zone_suffix :: "string \<Rightarrow> string \<Rightarrow> string" where
  "strip_zone_suffix zname fqdn =
     (let f = (if py_endswith fqdn ''.'' then fqdn else fqdn @ ''.'')
      in if f = zname then []
         else if py_endswith f (''.'' @ zname) then take (length f - length zname - 1) f
         else fqdn)"

text \<open>
  Modelled from the spec: the zone store and the record constructor are not part of the
  module. The zone of the examples accepts every record: \<^verbatim>\<open>Record.new\<close> returns the name
  with the data it was given, and \<^verbatim>\<open>add_record\<close> appends it to the records of the zone.
\<close>

definition example_zone :: "string \<Rightarrow> ((string \<times> rdata) list, string \<times> rdata) zone" where
  "example_zone zname =
     \<lparr>zone_name = zname,
      hostname_from_fqdn = strip_zone_suffix zname,
      Record_new = (\<lambda>name data src lenient. Inr (name, data)),
      add_record = (\<lambda>recs r lenient. Inr (recs @ [r])),
      zone_records = []\<rparr>"

text \<open>
  The standard library of the examples: its unmodelled parts know no character name, no
  IPv6 address and no text to wrap. The examples do not reach them.
\<close>

definition example_pylib :: pylib where
  "example_pylib =
     \<lparr>unicodedata_lookup = (\<lambda>name. None),
      textwrap_words = (\<lambda>s width. []),
      ipv6_reverse_pointer = (\<lambda>s. None)\<rparr>"

text \<open>
  A file source as the module builds it: \<^verbatim>\<open>default_ttl\<close> as given, the lines of one data
  file, and no attribute \<^verbatim>\<open>split_re\<close>.
\<close>

definition example_source :: "int \<Rightarrow> string \<Rightarrow> source" where
  "example_source ttl content =
     \<lparr>default_ttl = ttl, split_re = None, source_lines = file_source_lines [(''data'', content)]\<rparr>"

section \<open>Properties\<close>

subsection \<open>Helper facts about the built-ins and the TTL scan\<close>

lemma map_result_Inr:
  "\<forall>x\<in>set xs. f x = Inr (g x) \<Longrightarrow> map_result f xs = Inr (map g xs)"
  by (induction xs) auto

lemma py_index_in_range: "i < length xs \<Longrightarrow> py_index xs i = Inr (xs ! i)"
  by (simp add: py_index_def)

lemma ttl_loop_first:
  "ttl_loop (first # others) idx ttl rest =
     (if rest = [] \<or> \<not> idx < length first then Inr ttl
      else (case py_int (first ! idx) of None \<Rightarrow> Inl ValueError | Some t \<Rightarrow> Inr t))"
  by (induction rest) (auto simp: py_index_def)

lemma find_ttl_cases:
  "find_ttl self lines idx =
     (case lines of
        [] \<Rightarrow> Inr (default_ttl self)
      | first # others \<Rightarrow>
          if idx < length first
          then (case py_int (first ! idx) of None \<Rightarrow> Inl ValueError | Some t \<Rightarrow> Inr t)
          else Inr (default_ttl self))"
proof (cases lines)
  case Nil
  then show ?thesis by (simp add: find_ttl_def)
next
  case (Cons first others)
  then show ?thesis by (simp add: find_ttl_def ttl_loop_first del: ttl_loop.simps)
qed

subsection \<open>The handler of \<^verbatim>\<open>+\<close>\<close>

lemma records_for_equal_forward:
  "records_for_equal py self zone name lines False = records_for_plus py self zone name lines False"
  by (simp add: records_for_equal_def records_for_caret_def split: sum.splits)

lemma plus_addresses:
  assumes "\<forall>l\<in>set lines. 2 \<le> length l"
  shows "map_result (\<lambda>l. py_index l 1) lines = Inr (map (\<lambda>l. l ! 1) lines)"
  using assms by (intro map_result_Inr) (auto simp: py_index_def)

text \<open>
  Claim C4: in a group of \<^verbatim>\<open>+\<close> lines every address equal to \<^verbatim>\<open>0.0.0.0\<close> is dropped from the
  A values, and a group whose addresses are all \<^verbatim>\<open>0.0.0.0\<close> yields no event at all. For a
  group whose lines all have an address field: the handler returns no event when every
  address is the placeholder (whatever the TTL fields hold); otherwise, unless the TTL scan
  raises, it yields one A event with the other addresses in the order of the lines; no
  event ever holds the placeholder; and \<^verbatim>\<open>=\<close> lines of a forward zone are handled the same.
\<close>

theorem plus_drops_placeholders:
  assumes "\<forall>l\<in>set lines. 2 \<le> length l"
  shows "records_for_plus py self zone name lines False =
           (if \<forall>l\<in>set lines. l ! 1 = ''0.0.0.0'' then Inr []
            else (case find_ttl self lines 2 of
                    Inl e \<Rightarrow> Inl e
                  | Inr t \<Rightarrow>
                      Inr [(''A'', name,
                            map Str (filter (\<lambda>ip. ip \<noteq> ''0.0.0.0'') (map (\<lambda>l. l ! 1) lines)))]))
       \<and> (\<forall>evs. records_for_plus py self zone name lines False = Inr evs \<longrightarrow>
             (\<forall>ev\<in>set evs. Str ''0.0.0.0'' \<notin> set (snd (snd ev))))
       \<and> records_for_equal py self zone name lines False =
           records_for_plus py self zone name lines False"
proof -
  let ?ips = "filter (\<lambda>ip. ip \<noteq> ''0.0.0.0'') (map (\<lambda>l. l ! 1) lines)"
  have empty: "(?ips = []) = (\<forall>l\<in>set lines. l ! 1 = ''0.0.0.0'')"
    by (auto simp: filter_empty_conv simp del: One_nat_def)
  have eq: "records_for_plus py self zone name lines False =
           (if \<forall>l\<in>set lines. l ! 1 = ''0.0.0.0'' then Inr []
            else (case find_ttl self lines 2 of
                    Inl e \<Rightarrow> Inl e
                  | Inr t \<Rightarrow> Inr [(''A'', name, map Str ?ips)]))"
    unfolding records_for_plus_def plus_addresses [OF assms] using empty
    by (simp add: Let_def del: One_nat_def)
  have drop: "\<forall>evs. records_for_plus py self zone name lines False = Inr evs \<longrightarrow>
             (\<forall>ev\<in>set evs. Str ''0.0.0.0'' \<notin> set (snd (snd ev)))"
    unfolding eq by (auto split: if_splits sum.splits)
  from eq drop records_for_equal_forward show ?thesis by blast
qed

theorem plus_drops_placeholders_witness:
  "records_for_plus example_pylib (example_source 3600 []) (example_zone ''example.com.'') ''a''
      [[''a.example.com'', ''0.0.0.0''], [''a.example.com'', ''0.0.0.0'', ''x'']] False = Inr []
   \<and> records_for_plus example_pylib (example_source 3600 []) (example_zone ''example.com.'') ''a''
      [[''a.example.com'', ''0.0.0.0''], [''a.example.com'', ''192.0.2.1'']] False
      = Inr [(''A'', ''a'', [Str ''192.0.2.1''])]"
  using plus_drops_placeholders [of "[[''a.example.com'', ''0.0.0.0''], [''a.example.com'', ''0.0.0.0'', ''x'']]"
          example_pylib "example_source 3600 []" "example_zone ''example.com.''" "''a''"]
        plus_drops_placeholders [of "[[''a.example.com'', ''0.0.0.0''], [''a.example.com'', ''192.0.2.1'']]"
          example_pylib "example_source 3600 []" "example_zone ''example.com.''" "''a''"]
  by (simp add: find_ttl_cases)

subsection \<open>The TTL of a materialized record\<close>

text \<open>
  \<^verbatim>\<open>_process_symbols\<close> returns the dictionary \<^verbatim>\<open>ttls\<close> as it created it, so every record of
  \<^verbatim>\<open>_populate_normal\<close> is built with the default TTL of the source, whatever the lines say.
\<close>

lemma process_symbols_ttls:
  "process_symbols py self zone symbols = Inr (types, ttls) \<Longrightarrow> ttls = []"
  by (auto simp: process_symbols_def split: sum.splits)

lemma normal_data_ttl:
  "normal_data self [] ty name vals = Inr d \<Longrightarrow> data_ttl d = TtlInt (default_ttl self)"
  by (auto simp: normal_data_def dd_get_def Let_def split: if_splits sum.splits)

text \<open>
  Claim C1: the TTL of the record of a group is the TTL field of the first line of the
  group that has one, and the default TTL only when no line has one. The code does
  not do this. For the zone \<^verbatim>\<open>example.com.\<close>, a source with the default TTL 3600 and the
  single line \<^verbatim>\<open>+a.example.com:1.2.3.4:300\<close>, the handler reads the field \<^verbatim>\<open>300\<close> into a
  local variable and drops it: the A record of \<^verbatim>\<open>a\<close> is built with the TTL 3600.
\<close>

theorem line_ttl_is_dropped:
  "zone_records (fst (populate example_pylib
      (example_source 3600 ''+a.example.com:1.2.3.4:300'') (example_zone ''example.com.'') False))
   = [(''a'', \<lparr>data_ttl = TtlInt 3600, data_type = ''A'',
               data_payload = Value (Str ''1.2.3.4'')\<rparr>)]"
  by code_simp

subsection \<open>Reverse zones\<close>

text \<open>
  Claim C2: in the zone \<^verbatim>\<open>2.0.192.in-addr.arpa.\<close> the line \<^verbatim>\<open>=host.example.com:192.0.2.5\<close>
  gives a PTR record with the name \<^verbatim>\<open>5\<close> and the value \<^verbatim>\<open>host.example.com.\<close>. With a source
  as the module builds it the population stops at this line with AttributeError, before
  any record is made, because \<^verbatim>\<open>self.split_re\<close> is not defined.
\<close>

theorem reverse_zone_example_fails:
  "snd (populate example_pylib (example_source 3600 ''=host.example.com:192.0.2.5'')
          (example_zone ''2.0.192.in-addr.arpa.'') False) = Some AttributeError
   \<and> zone_records (fst (populate example_pylib
          (example_source 3600 ''=host.example.com:192.0.2.5'')
          (example_zone ''2.0.192.in-addr.arpa.'') False)) = []"
  by code_simp

text \<open>
  Were a splitter at colons supplied as \<^verbatim>\<open>split_re\<close>, the rest of the function would
  build the record the claim describes.
\<close>

lemma reverse_zone_example_with_splitter:
  "zone_records (fst (populate example_pylib
      ((example_source 3600 ''=host.example.com:192.0.2.5'')\<lparr>split_re := Some (py_split (CHR '':''))\<rparr>)
      (example_zone ''2.0.192.in-addr.arpa.'') False))
   = [(''5'', \<lparr>data_ttl = TtlInt 3600, data_type = ''PTR'',
               data_payload = Value (Str ''host.example.com.'')\<rparr>)]"
  by code_simp




subsection \<open>The handler of \<^verbatim>\<open>^\<close>\<close>

lemma names_loop_caret:
  "names_loop (\<lambda>name lines. records_for_caret py self zone name lines False) types names
   = Inr types"
  by (induction names arbitrary: types) (auto simp: records_for_caret_def)

text \<open>
  Claim C3: the handler of \<^verbatim>\<open>^\<close>, called by the dispatch of a forward zone, raises
  NotImplementedError. It does not: the dispatch calls every handler without
  \<^verbatim>\<open>in_addr\<close>, and the handler then returns no event. For the zone \<^verbatim>\<open>example.com.\<close> and the
  single line \<^verbatim>\<open>^a.example.com:host.example.com\<close> the population ends without an exception
  and without a record.
\<close>

theorem caret_forward_counterexample:
  "snd (populate example_pylib (example_source 3600 ''^a.example.com:host.example.com'')
          (example_zone ''example.com.'') False) = None
   \<and> zone_records (fst (populate example_pylib
          (example_source 3600 ''^a.example.com:host.example.com'')
          (example_zone ''example.com.'') False)) = []"
  by code_simp

text \<open>
  Claim C3 as amended: the handler of \<^verbatim>\<open>^\<close> raises NotImplementedError exactly when it is
  called with \<^verbatim>\<open>in_addr\<close> set, and returns no event otherwise; the dispatch of
  \<^verbatim>\<open>_process_symbols\<close>, which never sets \<^verbatim>\<open>in_addr\<close>, passes over the group of \<^verbatim>\<open>^\<close> and
  leaves the collected values as they were.
\<close>

theorem caret_forward_skipped:
  "records_for_caret py self zone name lines in_addr =
     (if in_addr then Inl NotImplementedError else Inr [])
   \<and> symbols_loop py self zone types ((CHR ''^'', names) # rest) =
       symbols_loop py self zone types rest"
proof
  show "records_for_caret py self zone name lines in_addr =
     (if in_addr then Inl NotImplementedError else Inr [])"
    by (simp add: records_for_caret_def)
  show "symbols_loop py self zone types ((CHR ''^'', names) # rest) =
       symbols_loop py self zone types rest"
    by (simp add: SYMBOL_MAP_def names_loop_caret)
qed

subsection \<open>The targets of NS and MX lines\<close>

lemma dot_loop_values:
  assumes "\<forall>l\<in>set lines. 3 \<le> length l"
  shows "\<exists>evs. dot_loop zone lines =
           Inr (evs, map (\<lambda>l. Str (if CHR ''.'' \<notin> set (l ! 2) then l ! 2 @ ''.ns.'' @ zone_name zone
                                    else if last (l ! 2) \<noteq> CHR ''.'' then l ! 2 @ ''.''
                                    else l ! 2)) lines)"
  using assms
proof (induction lines)
  case Nil
  then show ?case by simp
next
  case (Cons l lines)
  then obtain evs where "dot_loop zone lines =
           Inr (evs, map (\<lambda>l. Str (if CHR ''.'' \<notin> set (l ! 2) then l ! 2 @ ''.ns.'' @ zone_name zone
                                    else if last (l ! 2) \<noteq> CHR ''.'' then l ! 2 @ ''.''
                                    else l ! 2)) lines)"
    by auto
  moreover from Cons.prems have "3 \<le> length l" by simp
  ultimately show ?case by (simp add: py_index_def Let_def)
qed

lemma at_loop_values:
  assumes "\<forall>l\<in>set lines. 3 \<le> length l"
  shows "\<exists>evs prefs. length prefs = length lines \<and> at_loop zone lines =
           Inr (evs, map (\<lambda>(p, l). MX p (if CHR ''.'' \<notin> set (l ! 2) then l ! 2 @ ''.ns.'' @ zone_name zone
                                    else if last (l ! 2) \<noteq> CHR ''.'' then l ! 2 @ ''.''
                                    else l ! 2)) (zip prefs lines))"
  using assms
proof (induction lines)
  case Nil
  then show ?case by simp
next
  case (Cons l lines)
  then obtain evs prefs where ih: "length prefs = length lines" "at_loop zone lines =
           Inr (evs, map (\<lambda>(p, l). MX p (if CHR ''.'' \<notin> set (l ! 2) then l ! 2 @ ''.ns.'' @ zone_name zone
                                    else if last (l ! 2) \<noteq> CHR ''.'' then l ! 2 @ ''.''
                                    else l ! 2)) (zip prefs lines))"
    by auto
  from Cons.prems have len: "3 \<le> length l" by simp
  let ?d = "(case py_index l 3 of Inl e \<Rightarrow> PrefInt 0 | Inr d \<Rightarrow> if d = [] then PrefInt 0 else PrefStr d)"
  let ?A = "\<lambda>mx. (if l ! 1 \<noteq> [] then [(''A'', hostname_from_fqdn zone mx, [Str (l ! 1)])] else [])"
  have "at_loop zone (l # lines) =
          Inr (?A (if CHR ''.'' \<notin> set (l ! 2) then l ! 2 @ ''.ns.'' @ zone_name zone
                     else if last (l ! 2) \<noteq> CHR ''.'' then l ! 2 @ ''.'' else l ! 2) @ evs,
               map (\<lambda>(p, l). MX p (if CHR ''.'' \<notin> set (l ! 2) then l ! 2 @ ''.ns.'' @ zone_name zone
                                    else if last (l ! 2) \<noteq> CHR ''.'' then l ! 2 @ ''.''
                                    else l ! 2)) (zip (?d # prefs) (l # lines)))"
    using len ih(2) by (simp add: py_index_def Let_def del: One_nat_def)
  moreover have "length (?d # prefs) = length (l # lines)" using ih(1) by simp
  ultimately show ?case by blast
qed

lemma ns_targets:
  assumes "\<forall>l\<in>set lines. 3 \<le> length l"
    and "find_ttl self lines 3 = Inr t"
  shows "\<exists>evs targets.
            records_for_dot py self zone name lines False = Inr (evs @ [(''NS'', name, map Str targets)])
          \<and> length targets = length lines
          \<and> (\<forall>i<length lines.
               (CHR ''.'' \<notin> set (lines ! i ! 2) \<longrightarrow>
                  targets ! i = lines ! i ! 2 @ ''.ns.'' @ zone_name zone)
             \<and> (CHR ''.'' \<in> set (lines ! i ! 2) \<and> last (lines ! i ! 2) \<noteq> CHR ''.'' \<longrightarrow>
                  targets ! i = lines ! i ! 2 @ ''.'')
             \<and> (CHR ''.'' \<in> set (lines ! i ! 2) \<and> last (lines ! i ! 2) = CHR ''.'' \<longrightarrow>
                  targets ! i = lines ! i ! 2))"
proof -
  let ?tgt = "\<lambda>l. (if CHR ''.'' \<notin> set (l ! 2) then l ! 2 @ ''.ns.'' @ zone_name zone
                    else if last (l ! 2) \<noteq> CHR ''.'' then l ! 2 @ ''.'' else l ! 2)"
  from dot_loop_values [OF assms(1), of zone] obtain evs where
    d: "dot_loop zone lines = Inr (evs, map (\<lambda>l. Str (?tgt l)) lines)" by blast
  have "records_for_dot py self zone name lines False
        = Inr (evs @ [(''NS'', name, map Str (map ?tgt lines))])"
    using d assms(2) by (simp add: records_for_dot_def comp_def)
  moreover have "length (map ?tgt lines) = length lines" by simp
  moreover have "\<forall>i<length lines.
               (CHR ''.'' \<notin> set (lines ! i ! 2) \<longrightarrow>
                  map ?tgt lines ! i = lines ! i ! 2 @ ''.ns.'' @ zone_name zone)
             \<and> (CHR ''.'' \<in> set (lines ! i ! 2) \<and> last (lines ! i ! 2) \<noteq> CHR ''.'' \<longrightarrow>
                  map ?tgt lines ! i = lines ! i ! 2 @ ''.'')
             \<and> (CHR ''.'' \<in> set (lines ! i ! 2) \<and> last (lines ! i ! 2) = CHR ''.'' \<longrightarrow>
                  map ?tgt lines ! i = lines ! i ! 2)"
    by simp
  ultimately show ?thesis by blast
qed

lemma mx_targets:
  assumes "\<forall>l\<in>set lines. 3 \<le> length l"
    and "find_ttl self lines 4 = Inr t"
  shows "\<exists>evs prefs targets.
            records_for_at py self zone name lines False =
              Inr (evs @ [(''MX'', name, map (\<lambda>(p, x). MX p x) (zip prefs targets))])
          \<and> length prefs = length lines \<and> length targets = length lines
          \<and> (\<forall>i<length lines.
               (CHR ''.'' \<notin> set (lines ! i ! 2) \<longrightarrow>
                  targets ! i = lines ! i ! 2 @ ''.ns.'' @ zone_name zone)
             \<and> (CHR ''.'' \<in> set (lines ! i ! 2) \<and> last (lines ! i ! 2) \<noteq> CHR ''.'' \<longrightarrow>
                  targets ! i = lines ! i ! 2 @ ''.'')
             \<and> (CHR ''.'' \<in> set (lines ! i ! 2) \<and> last (lines ! i ! 2) = CHR ''.'' \<longrightarrow>
                  targets ! i = lines ! i ! 2))"
proof -
  let ?tgt = "\<lambda>l. (if CHR ''.'' \<notin> set (l ! 2) then l ! 2 @ ''.ns.'' @ zone_name zone
                    else if last (l ! 2) \<noteq> CHR ''.'' then l ! 2 @ ''.'' else l ! 2)"
  from at_loop_values [OF assms(1), of zone] obtain evs' prefs where
    a: "length prefs = length lines"
       "at_loop zone lines = Inr (evs', map (\<lambda>(p, l). MX p (?tgt l)) (zip prefs lines))" by blast
  have m: "map (\<lambda>(p, l). MX p (?tgt l)) (zip prefs lines)
           = map (\<lambda>(p, x). MX p x) (zip prefs (map ?tgt lines))"
    by (simp add: zip_map2 case_prod_unfold comp_def)
  have "records_for_at py self zone name lines False
        = Inr (evs' @ [(''MX'', name, map (\<lambda>(p, x). MX p x) (zip prefs (map ?tgt lines)))])"
    using a(2) assms(2) unfolding m by (simp add: records_for_at_def)
  moreover have "length (map ?tgt lines) = length lines" by simp
  moreover have "\<forall>i<length lines.
               (CHR ''.'' \<notin> set (lines ! i ! 2) \<longrightarrow>
                  map ?tgt lines ! i = lines ! i ! 2 @ ''.ns.'' @ zone_name zone)
             \<and> (CHR ''.'' \<in> set (lines ! i ! 2) \<and> last (lines ! i ! 2) \<noteq> CHR ''.'' \<longrightarrow>
                  map ?tgt lines ! i = lines ! i ! 2 @ ''.'')
             \<and> (CHR ''.'' \<in> set (lines ! i ! 2) \<and> last (lines ! i ! 2) = CHR ''.'' \<longrightarrow>
                  map ?tgt lines ! i = lines ! i ! 2)"
    by simp
  ultimately show ?thesis using a(1) by blast
qed

text \<open>
  Claim C6: for every NS line (\<^verbatim>\<open>.\<close> or \<^verbatim>\<open>&\<close>) and every MX line (\<^verbatim>\<open>@\<close>), a host field
  without a dot becomes \<^verbatim>\<open><field>.ns.<zone name>\<close>, a field with a dot but no trailing dot
  gets one dot appended, and a field that ends in a dot is kept. For a group whose lines
  all have the host field (the third field) and whose TTL scan does not raise, the
  handler ends with the NS (MX) event of the group, which has one target per line, in
  the order of the lines, formed in exactly this way.
\<close>

theorem ns_mx_target:
  assumes "\<forall>l\<in>set lines. 3 \<le> length l"
  shows "((\<exists>t. find_ttl self lines 3 = Inr t) \<longrightarrow>
          (\<exists>evs targets.
            records_for_dot py self zone name lines False = Inr (evs @ [(''NS'', name, map Str targets)])
          \<and> length targets = length lines
          \<and> (\<forall>i<length lines.
               (CHR ''.'' \<notin> set (lines ! i ! 2) \<longrightarrow>
                  targets ! i = lines ! i ! 2 @ ''.ns.'' @ zone_name zone)
             \<and> (CHR ''.'' \<in> set (lines ! i ! 2) \<and> last (lines ! i ! 2) \<noteq> CHR ''.'' \<longrightarrow>
                  targets ! i = lines ! i ! 2 @ ''.'')
             \<and> (CHR ''.'' \<in> set (lines ! i ! 2) \<and> last (lines ! i ! 2) = CHR ''.'' \<longrightarrow>
                  targets ! i = lines ! i ! 2))))
       \<and> ((\<exists>t. find_ttl self lines 4 = Inr t) \<longrightarrow>
          (\<exists>evs prefs targets.
            records_for_at py self zone name lines False =
              Inr (evs @ [(''MX'', name, map (\<lambda>(p, x). MX p x) (zip prefs targets))])
          \<and> length prefs = length lines \<and> length targets = length lines
          \<and> (\<forall>i<length lines.
               (CHR ''.'' \<notin> set (lines ! i ! 2) \<longrightarrow>
                  targets ! i = lines ! i ! 2 @ ''.ns.'' @ zone_name zone)
             \<and> (CHR ''.'' \<in> set (lines ! i ! 2) \<and> last (lines ! i ! 2) \<noteq> CHR ''.'' \<longrightarrow>
                  targets ! i = lines ! i ! 2 @ ''.'')
             \<and> (CHR ''.'' \<in> set (lines ! i ! 2) \<and> last (lines ! i ! 2) = CHR ''.'' \<longrightarrow>
                  targets ! i = lines ! i ! 2))))
       \<and> SYMBOL_MAP (CHR ''.'') = Some records_for_dot
       \<and> SYMBOL_MAP (CHR ''&'') = Some records_for_dot
       \<and> SYMBOL_MAP (CHR ''@'') = Some records_for_at"
proof (intro conjI impI)
  assume "\<exists>t. find_ttl self lines 3 = Inr t"
  then obtain t where "find_ttl self lines 3 = Inr t" ..
  from ns_targets [OF assms this]
  show "\<exists>evs targets.
            records_for_dot py self zone name lines False = Inr (evs @ [(''NS'', name, map Str targets)])
          \<and> length targets = length lines
          \<and> (\<forall>i<length lines.
               (CHR ''.'' \<notin> set (lines ! i ! 2) \<longrightarrow>
                  targets ! i = lines ! i ! 2 @ ''.ns.'' @ zone_name zone)
             \<and> (CHR ''.'' \<in> set (lines ! i ! 2) \<and> last (lines ! i ! 2) \<noteq> CHR ''.'' \<longrightarrow>
                  targets ! i = lines ! i ! 2 @ ''.'')
             \<and> (CHR ''.'' \<in> set (lines ! i ! 2) \<and> last (lines ! i ! 2) = CHR ''.'' \<longrightarrow>
                  targets ! i = lines ! i ! 2))" .
next
  assume "\<exists>t. find_ttl self lines 4 = Inr t"
  then obtain t where "find_ttl self lines 4 = Inr t" ..
  from mx_targets [OF assms this]
  show "\<exists>evs prefs targets.
            records_for_at py self zone name lines False =
              Inr (evs @ [(''MX'', name, map (\<lambda>(p, x). MX p x) (zip prefs targets))])
          \<and> length prefs = length lines \<and> length targets = length lines
          \<and> (\<forall>i<length lines.
               (CHR ''.'' \<notin> set (lines ! i ! 2) \<longrightarrow>
                  targets ! i = lines ! i ! 2 @ ''.ns.'' @ zone_name zone)
             \<and> (CHR ''.'' \<in> set (lines ! i ! 2) \<and> last (lines ! i ! 2) \<noteq> CHR ''.'' \<longrightarrow>
                  targets ! i = lines ! i ! 2 @ ''.'')
             \<and> (CHR ''.'' \<in> set (lines ! i ! 2) \<and> last (lines ! i ! 2) = CHR ''.'' \<longrightarrow>
                  targets ! i = lines ! i ! 2))" .
qed (simp_all add: SYMBOL_MAP_def)

theorem ns_mx_target_witness:
  "records_for_dot example_pylib (example_source 3600 []) (example_zone ''example.com.'') []
     [[''example.com'', [], ''a''], [''example.com'', [], ''ns.example.net''],
      [''example.com'', [], ''ns.example.org.'']] False
   = Inr [(''NS'', [], [Str ''a.ns.example.com.'', Str ''ns.example.net.'', Str ''ns.example.org.''])]
   \<and> records_for_at example_pylib (example_source 3600 []) (example_zone ''example.com.'') []
     [[''example.com'', [], ''a''], [''example.com'', [], ''mx.example.net'', ''10''],
      [''example.com'', [], ''mx.example.org.'', []]] False
   = Inr [(''MX'', [], [MX (PrefInt 0) ''a.ns.example.com.'', MX (PrefStr ''10'') ''mx.example.net.'',
                       MX (PrefInt 0) ''mx.example.org.''])]"
  using ns_mx_target [of "[[''example.com'', [], ''a''], [''example.com'', [], ''ns.example.net''],
      [''example.com'', [], ''ns.example.org.'']]" "example_source 3600 []"
      example_pylib "example_zone ''example.com.''" "[]"]
    ns_mx_target [of "[[''example.com'', [], ''a''], [''example.com'', [], ''mx.example.net'', ''10''],
      [''example.com'', [], ''mx.example.org.'', []]]" "example_source 3600 []"
      example_pylib "example_zone ''example.com.''" "[]"]
  by (simp add: find_ttl_cases records_for_dot_def records_for_at_def py_index_def example_zone_def)

subsection \<open>The addresses of AAAA lines\<close>









subsection \<open>The texts of TXT lines\<close>


lemma replace_semicolon_count:
  "length (filter (\<lambda>c. c = 59) (py_replace 59 [92, 59] (d :: nat list))) = length (filter (\<lambda>c. c = 59) d)
   \<and> filter (\<lambda>c. c \<noteq> 59 \<and> c \<noteq> 92) (py_replace 59 [92, 59] d) = filter (\<lambda>c. c \<noteq> 59 \<and> c \<noteq> 92) d"
  by (induction d) (auto simp: py_replace_def)

















subsection \<open>The filter on the names of the zone\<close>

lemma re_prefix_same: "re_prefix (p @ q) (p @ r) = re_prefix q r"
  by (induction p) (auto simp: re_char_def)

lemma re_prefix_self: "re_prefix p p = Some []"
  using re_prefix_same [of p "[]" "[]"] by simp

lemma dns_char_plain:
  assumes "dns_char c \<or> c = CHR ''.'' \<or> c = CHR ''x''"
  shows "c \<noteq> CHR ''#'' \<and> c \<noteq> CHR '':'' \<and> \<not> py_isspace c \<and> c \<noteq> CHR 0x0A"
  using assms by (auto simp: dns_char_def py_isspace_def)

lemma takeWhile_no_hash:
  "CHR ''#'' \<notin> set u \<Longrightarrow> takeWhile (\<lambda>c. c \<noteq> CHR ''#'') u = u"
  by (auto simp: takeWhile_eq_all_conv)

lemma py_split_first_field:
  "sep \<notin> set s \<Longrightarrow> py_split sep (s @ sep # t) = s # py_split sep t"
  by (induction s) auto

lemma py_strip_no_space:
  assumes "\<forall>c\<in>set s. \<not> py_isspace c"
  shows "py_strip s = s"
proof -
  have d: "\<And>u. \<forall>c\<in>set u. \<not> py_isspace c \<Longrightarrow> dropWhile py_isspace u = u"
    by (auto simp: dropWhile_eq_self_iff)
  from assms show ?thesis by (simp add: py_strip_def d)
qed

lemma tokenize_two_fields:
  assumes "\<forall>c\<in>set s. c \<noteq> CHR ''#'' \<and> c \<noteq> CHR '':'' \<and> \<not> py_isspace c"
  shows "tokenize (s @ '':192.0.2.1'') = [s, ''192.0.2.1'']"
proof -
  have "CHR ''#'' \<notin> set (s @ '':192.0.2.1'')" using assms by auto
  then have "takeWhile (\<lambda>c. c \<noteq> CHR ''#'') (s @ '':192.0.2.1'') = s @ '':192.0.2.1''"
    by (rule takeWhile_no_hash)
  moreover have "py_split (CHR '':'') (s @ CHR '':'' # ''192.0.2.1'') = s # py_split (CHR '':'') ''192.0.2.1''"
    using assms by (intro py_split_first_field) auto
  moreover have "py_strip s = s" using assms by (intro py_strip_no_space) auto
  ultimately show ?thesis by (simp add: tokenize_def py_strip_def py_isspace_def)
qed

lemma plus_single_line:
  "records_for_plus py self zone name [[s, ''192.0.2.1'']] False = Inr [(''A'', name, [Str ''192.0.2.1''])]"
  by (simp add: records_for_plus_def py_index_def find_ttl_cases)

lemma py_endswith_longer: "length s < length suffix \<Longrightarrow> \<not> py_endswith s suffix"
  by (auto simp: py_endswith_def dest!: arg_cong [where f = length])

text \<open>
  Claim C9: the pattern of \<^verbatim>\<open>_process_lines\<close> holds the name of the zone unescaped, so a dot
  of the zone name matches any character. For every zone whose name (of letters,
  digits, \<^verbatim>\<open>-\<close>, \<^verbatim>\<open>_\<close> and dots) has a dot before its last character there is a name \<open>s\<close>
  that is not the zone name, with or without its last character, and does not end in a
  dot followed by the zone name, that differs from the zone name at a position where
  the zone name has a dot, and that the filter accepts: the line \<^verbatim>\<open>+s:192.0.2.1\<close> is
  grouped under its symbol and gives an A value.
\<close>

theorem zone_filter_dot_wildcard:
  assumes dns: "dns_name (zone_name zone)"
    and dot: "CHR ''.'' \<in> set (butlast (zone_name zone))"
  shows "\<exists>s. s \<noteq> zone_name zone \<and> s \<noteq> butlast (zone_name zone)
           \<and> \<not> py_endswith s (''.'' @ zone_name zone)
           \<and> \<not> py_endswith s (''.'' @ butlast (zone_name zone))
           \<and> length s = length (butlast (zone_name zone))
           \<and> (\<exists>i<length s. butlast (zone_name zone) ! i = CHR ''.'' \<and> s ! i \<noteq> CHR ''.'')
           \<and> name_re_match (zone_name zone) s
           \<and> process_lines zone [CHR ''+'' # s @ '':192.0.2.1'']
               = Inr [(CHR ''+'', [(hostname_from_fqdn zone s, [[s, ''192.0.2.1'']])])]
           \<and> process_symbols py self zone
                 [(CHR ''+'', [(hostname_from_fqdn zone s, [[s, ''192.0.2.1'']])])]
               = Inr ([(''A'', [(hostname_from_fqdn zone s, [Str ''192.0.2.1''])])], [])"
proof -
  define zn where "zn = zone_name zone"
  define zb where "zb = butlast zn"
  define a where "a = takeWhile (\<lambda>c. c \<noteq> CHR ''.'') zb"
  define b where "b = tl (dropWhile (\<lambda>c. c \<noteq> CHR ''.'') zb)"
  define s where "s = a @ CHR ''x'' # b"
  from dot have dot': "CHR ''.'' \<in> set zb" by (simp add: zb_def zn_def)
  then have ne: "dropWhile (\<lambda>c. c \<noteq> CHR ''.'') zb \<noteq> []" by (auto simp: dropWhile_eq_Nil_conv)
  with hd_dropWhile [OF ne] have "dropWhile (\<lambda>c. c \<noteq> CHR ''.'') zb = CHR ''.'' # b"
    by (cases "dropWhile (\<lambda>c. c \<noteq> CHR ''.'') zb") (auto simp: b_def)
  then have zb: "zb = a @ CHR ''.'' # b"
    unfolding a_def by (metis takeWhile_dropWhile_id)
  have len: "length s = length zb" by (simp add: s_def zb)
  from dot' have "zn \<noteq> []" by (auto simp: zb_def)
  then have lzn: "length zn = Suc (length zb)" by (simp add: zb_def)
  have c1: "s \<noteq> zn" using len lzn by auto
  have c2: "s \<noteq> zb" by (simp add: s_def zb)
  have c3: "\<not> py_endswith s (''.'' @ zn)" using len lzn by (intro py_endswith_longer) simp
  have c4: "\<not> py_endswith s (''.'' @ zb)" using len by (intro py_endswith_longer) simp
  have c5: "\<exists>i<length s. zb ! i = CHR ''.'' \<and> s ! i \<noteq> CHR ''.''"
  proof (intro exI conjI)
    show "length a < length s" by (simp add: s_def)
    show "zb ! length a = CHR ''.''" by (simp add: zb)
    show "s ! length a \<noteq> CHR ''.''" by (simp add: s_def)
  qed
  have "re_prefix zb s = re_prefix (CHR ''.'' # b) (CHR ''x'' # b)"
    unfolding zb s_def by (rule re_prefix_same)
  then have "re_prefix zb s = Some []" by (simp add: re_char_def re_prefix_self)
  then have "zone_re zn s" by (simp add: zone_re_def zb_def re_tail_def)
  then have c6: "name_re_match zn s" by (simp add: name_re_match_def)
  have "set zb \<subseteq> set zn" unfolding zb_def by (auto dest: in_set_butlastD)
  moreover have "set s \<subseteq> set zb \<union> {CHR ''x''}" by (auto simp: s_def zb)
  moreover from dns have "\<forall>c\<in>set zn. dns_char c \<or> c = CHR ''.''"
    by (simp add: dns_name_def zn_def list_all_iff)
  ultimately have "\<forall>c\<in>set s. dns_char c \<or> c = CHR ''.'' \<or> c = CHR ''x''" by blast
  then have plain: "\<forall>c\<in>set s. c \<noteq> CHR ''#'' \<and> c \<noteq> CHR '':'' \<and> \<not> py_isspace c"
    using dns_char_plain by blast
  have tok: "tokenize (s @ '':192.0.2.1'') = [s, ''192.0.2.1'']"
    using plain by (rule tokenize_two_fields)
  have c7: "process_lines zone [CHR ''+'' # s @ '':192.0.2.1'']
               = Inr [(CHR ''+'', [(hostname_from_fqdn zone s, [[s, ''192.0.2.1'']])])]"
    using c6 by (simp add: process_lines_def tok py_index_def zn_def)
  have c8: "process_symbols py self zone
                 [(CHR ''+'', [(hostname_from_fqdn zone s, [[s, ''192.0.2.1'']])])]
               = Inr ([(''A'', [(hostname_from_fqdn zone s, [Str ''192.0.2.1''])])], [])"
    by (simp add: process_symbols_def SYMBOL_MAP_def plus_single_line)
  from c1 c2 c3 c4 c5 c6 c7 c8 len show ?thesis
    unfolding zn_def [symmetric] zb_def [symmetric] by blast
qed

theorem zone_filter_dot_wildcard_witness:
  "\<exists>s. s \<noteq> ''example.com.'' \<and> s \<noteq> ''example.com''
       \<and> \<not> py_endswith s (''.'' @ ''example.com.'')
       \<and> \<not> py_endswith s (''.'' @ ''example.com'')
       \<and> length s = length ''example.com''
       \<and> (\<exists>i<length s. ''example.com'' ! i = CHR ''.'' \<and> s ! i \<noteq> CHR ''.'')
       \<and> name_re_match ''example.com.'' s
       \<and> process_lines (example_zone ''example.com.'') [CHR ''+'' # s @ '':192.0.2.1'']
           = Inr [(CHR ''+'', [(strip_zone_suffix ''example.com.'' s, [[s, ''192.0.2.1'']])])]
       \<and> process_symbols example_pylib (example_source 3600 []) (example_zone ''example.com.'')
             [(CHR ''+'', [(strip_zone_suffix ''example.com.'' s, [[s, ''192.0.2.1'']])])]
           = Inr ([(''A'', [(strip_zone_suffix ''example.com.'' s, [Str ''192.0.2.1''])])], [])"
proof -
  have zn: "zone_name (example_zone ''example.com.'') = ''example.com.''"
    by (simp add: example_zone_def)
  have hf: "hostname_from_fqdn (example_zone ''example.com.'') = strip_zone_suffix ''example.com.''"
    by (simp add: example_zone_def)
  have bl: "butlast ''example.com.'' = ''example.com''" by simp
  have h1: "dns_name (zone_name (example_zone ''example.com.''))"
    unfolding zn by (simp add: dns_name_def dns_char_def)
  have h2: "CHR ''.'' \<in> set (butlast (zone_name (example_zone ''example.com.'')))"
    unfolding zn by simp
  show ?thesis
    using zone_filter_dot_wildcard [OF h1 h2, of example_pylib "example_source 3600 []"]
    unfolding zn hf bl .
qed

text \<open>For the zone \<^verbatim>\<open>example.com.\<close> the name \<^verbatim>\<open>examplexcom\<close> is such a name.\<close>

lemma zone_filter_example:
  "name_re_match ''example.com.'' ''examplexcom''
   \<and> zone_records (fst (populate example_pylib (example_source 3600 ''+examplexcom:192.0.2.1'')
        (example_zone ''example.com.'') False))
     = [(''examplexcom'', \<lparr>data_ttl = TtlInt 3600, data_type = ''A'',
                            data_payload = Value (Str ''192.0.2.1'')\<rparr>)]"
  by code_simp

subsection \<open>Merging the lines of one name\<close>

text \<open>
  The aggregation of \<^verbatim>\<open>_process_symbols\<close> appends: after a run of events the values of a
  type and a name are the values they had, followed by the values of the events for
  that type and name, in the order of the events. Every handler call of the dispatch
  therefore contributes its values as one block, and the dictionaries keep one entry
  for every key.
\<close>

lemma plus_two_lines:
  assumes "a1 \<noteq> ''0.0.0.0''" "a2 \<noteq> ''0.0.0.0''"
    and "rest1 = [] \<or> py_int (hd rest1) \<noteq> None"
  shows "records_for_plus py self zone name [n1 # a1 # rest1, n2 # a2 # rest2] False
         = Inr [(''A'', name, [Str a1, Str a2])]"
proof -
  have "\<exists>t. find_ttl self [n1 # a1 # rest1, n2 # a2 # rest2] 2 = Inr t"
    using assms(3) by (cases rest1) (auto simp: find_ttl_cases)
  then show ?thesis
    using assms(1,2) by (auto simp: records_for_plus_def py_index_def)
qed

lemma dd_get_update:
  "dd_get (dd_update k dflt f d) k' dflt' =
     (if k' = k then f (dd_get d k dflt) else dd_get d k' dflt')"
  by (induction d) (auto simp: dd_get_def)

lemma extend_types_appends:
  "dd_get (dd_get (extend_types types evs) ty []) n [] =
     dd_get (dd_get types ty []) n []
       @ concat (map (\<lambda>(t, m, vs). if t = ty \<and> m = n then vs else []) evs)"
proof (induction evs arbitrary: types)
  case Nil
  then show ?case by simp
next
  case (Cons ev evs)
  obtain t m vs where ev: "ev = (t, m, vs)" by (cases ev)
  show ?case
    unfolding ev by (simp add: Cons.IH dd_get_update)
qed

lemma names_loop_appends:
  "names_loop h types names = Inr types' \<Longrightarrow>
     \<exists>x. dd_get (dd_get types' ty []) n [] = dd_get (dd_get types ty []) n [] @ x"
proof (induction names arbitrary: types)
  case Nil
  then show ?case by simp
next
  case (Cons p names)
  obtain m g where p: "p = (m, g)" by (cases p)
  from Cons.prems p obtain evs where h: "h m g = Inr evs"
    and r: "names_loop h (extend_types types evs) names = Inr types'"
    by (auto split: sum.splits)
  from Cons.IH [OF r] obtain x where
    "dd_get (dd_get types' ty []) n [] = dd_get (dd_get (extend_types types evs) ty []) n [] @ x"
    by blast
  then show ?case by (simp add: extend_types_appends)
qed

lemma names_loop_member:
  assumes "names_loop h types names = Inr types'" and "(m, g) \<in> set names"
  shows "\<exists>evs pre post. h m g = Inr evs
           \<and> dd_get (dd_get types' ty []) n [] =
                pre @ concat (map (\<lambda>(t, k, vs). if t = ty \<and> k = n then vs else []) evs) @ post"
  using assms
proof (induction names arbitrary: types)
  case Nil
  then show ?case by simp
next
  case (Cons p names)
  obtain m' g' where p: "p = (m', g')" by (cases p)
  from Cons.prems(1) p obtain evs where h: "h m' g' = Inr evs"
    and r: "names_loop h (extend_types types evs) names = Inr types'"
    by (auto split: sum.splits)
  show ?case
  proof (cases "(m, g) = (m', g')")
    case True
    from names_loop_appends [OF r, of ty n] obtain x where
      "dd_get (dd_get types' ty []) n [] = dd_get (dd_get (extend_types types evs) ty []) n [] @ x"
      by blast
    then have "dd_get (dd_get types' ty []) n [] =
        dd_get (dd_get types ty []) n []
          @ concat (map (\<lambda>(t, k, vs). if t = ty \<and> k = n then vs else []) evs) @ x"
      by (simp add: extend_types_appends)
    with h True show ?thesis by blast
  next
    case False
    with Cons.prems(2) p have "(m, g) \<in> set names" by auto
    from Cons.IH [OF r this] show ?thesis .
  qed
qed

lemma symbols_loop_appends:
  "symbols_loop py self zone types symbols = Inr types' \<Longrightarrow>
     \<exists>x. dd_get (dd_get types' ty []) n [] = dd_get (dd_get types ty []) n [] @ x"
proof (induction symbols arbitrary: types)
  case Nil
  then show ?case by simp
next
  case (Cons p symbols)
  obtain symbol names where p: "p = (symbol, names)" by (cases p)
  show ?case
  proof (cases "SYMBOL_MAP symbol :: (pylib \<Rightarrow> source \<Rightarrow> ('a, 'b) zone \<Rightarrow> string \<Rightarrow> line list \<Rightarrow> bool \<Rightarrow> py_error + event list) option")
    case None
    with Cons.prems p have "symbols_loop py self zone types symbols = Inr types'" by simp
    from Cons.IH [OF this] show ?thesis .
  next
    case (Some h)
    with Cons.prems p obtain types1 where
      n1: "names_loop (\<lambda>name lines. h py self zone name lines False) types names = Inr types1"
      and r: "symbols_loop py self zone types1 symbols = Inr types'"
      by (auto split: sum.splits)
    from names_loop_appends [OF n1, of ty n] Cons.IH [OF r] show ?thesis by fastforce
  qed
qed

lemma symbols_loop_member:
  assumes "symbols_loop py self zone types symbols = Inr types'"
    and "(symbol, names) \<in> set symbols" and "SYMBOL_MAP symbol = Some h" and "(m, g) \<in> set names"
  shows "\<exists>evs pre post. h py self zone m g False = Inr evs
           \<and> dd_get (dd_get types' ty []) n [] =
                pre @ concat (map (\<lambda>(t, k, vs). if t = ty \<and> k = n then vs else []) evs) @ post"
  using assms(1,2)
proof (induction symbols arbitrary: types)
  case Nil
  then show ?case by simp
next
  case (Cons p symbols)
  obtain symbol' names' where p: "p = (symbol', names')" by (cases p)
  show ?case
  proof (cases "(symbol, names) = (symbol', names')")
    case True
    with Cons.prems(1) p assms(3) obtain types1 where
      n1: "names_loop (\<lambda>name lines. h py self zone name lines False) types names = Inr types1"
      and r: "symbols_loop py self zone types1 symbols = Inr types'"
      by (auto split: sum.splits)
    from names_loop_member [OF n1 assms(4), of ty n] obtain evs pre post where
      e: "h py self zone m g False = Inr evs"
      and v: "dd_get (dd_get types1 ty []) n [] =
                pre @ concat (map (\<lambda>(t, k, vs). if t = ty \<and> k = n then vs else []) evs) @ post"
      by blast
    from symbols_loop_appends [OF r, of ty n] obtain x where
      "dd_get (dd_get types' ty []) n [] = dd_get (dd_get types1 ty []) n [] @ x" by blast
    with v have "dd_get (dd_get types' ty []) n [] =
                pre @ concat (map (\<lambda>(t, k, vs). if t = ty \<and> k = n then vs else []) evs) @ (post @ x)"
      by simp
    with e show ?thesis by blast
  next
    case False
    with Cons.prems(2) p have mem: "(symbol, names) \<in> set symbols" by auto
    show ?thesis
    proof (cases "SYMBOL_MAP symbol' :: (pylib \<Rightarrow> source \<Rightarrow> ('a, 'b) zone \<Rightarrow> string \<Rightarrow> line list \<Rightarrow> bool \<Rightarrow> py_error + event list) option")
      case None
      with Cons.prems(1) p have "symbols_loop py self zone types symbols = Inr types'" by simp
      from Cons.IH [OF this mem] show ?thesis .
    next
      case (Some h')
      with Cons.prems(1) p obtain types1 where
        r: "symbols_loop py self zone types1 symbols = Inr types'"
        by (auto split: sum.splits)
      from Cons.IH [OF r mem] show ?thesis .
    qed
  qed
qed

lemma plus_group_in_any_file:
  assumes "a1 \<noteq> ''0.0.0.0''" and "a2 \<noteq> ''0.0.0.0''"
    and "process_symbols py self zone symbols = Inr (types, ttls)"
    and "(CHR ''+'', names) \<in> set symbols"
    and "(name, [n1 # a1 # rest1, n2 # a2 # rest2]) \<in> set names"
  shows "\<exists>pre post. dd_get (dd_get types ''A'' []) name [] = pre @ [Str a1, Str a2] @ post"
proof -
  from assms(3) have s: "symbols_loop py self zone [] symbols = Inr types"
    by (auto simp: process_symbols_def split: sum.splits)
  have m: "SYMBOL_MAP (CHR ''+'') = Some records_for_plus" by (simp add: SYMBOL_MAP_def)
  from symbols_loop_member [OF s assms(4) m assms(5), of "''A''" name]
  obtain evs pre post where
    e: "records_for_plus py self zone name [n1 # a1 # rest1, n2 # a2 # rest2] False = Inr evs"
    and v: "dd_get (dd_get types ''A'' []) name [] =
              pre @ concat (map (\<lambda>(t, k, vs). if t = ''A'' \<and> k = name then vs else []) evs) @ post"
    by blast
  from e assms(1,2) have "evs = [(''A'', name, [Str a1, Str a2])]"
    by (auto simp: records_for_plus_def py_index_def split: sum.splits)
  with v show ?thesis by auto
qed

lemma dd_update_keys:
  "map fst (dd_update k dflt f d) = (if k \<in> fst ` set d then map fst d else map fst d @ [k])"
  by (induction d) force+

lemma dd_update_distinct:
  "distinct (map fst d) \<Longrightarrow> distinct (map fst (dd_update k dflt f d))"
  by (simp add: dd_update_keys)

lemma dd_update_values:
  assumes "\<forall>p\<in>set d. P (snd p)" and "P (f dflt)" and "\<forall>v. P v \<longrightarrow> P (f v)"
  shows "\<forall>p\<in>set (dd_update k dflt f d). P (snd p)"
  using assms
proof (induction d)
  case Nil
  then show ?case by simp
next
  case (Cons q d)
  obtain k' v where q: "q = (k', v)" by (cases q)
  from Cons.prems(1) q have v: "P v" and d: "\<forall>p\<in>set d. P (snd p)" by simp_all
  from Cons.IH [OF d Cons.prems(2,3)] have ih: "\<forall>p\<in>set (dd_update k dflt f d). P (snd p)" .
  from Cons.prems(3) v have "P (f v)" by blast
  with v d ih show ?case unfolding q by simp
qed

lemma extend_types_keys:
  assumes "distinct (map fst types)" and "\<forall>p\<in>set types. distinct (map fst (snd p))"
  shows "distinct (map fst (extend_types types evs))
       \<and> (\<forall>p\<in>set (extend_types types evs). distinct (map fst (snd p)))"
  using assms
proof (induction evs arbitrary: types)
  case Nil
  then show ?case by simp
next
  case (Cons ev evs)
  obtain t m vs where ev: "ev = (t, m, vs)" by (cases ev)
  let ?types = "dd_update t [] (dd_update m [] (\<lambda>ws. ws @ vs)) types"
  have "distinct (map fst ?types)" using Cons.prems(1) by (rule dd_update_distinct)
  moreover have "\<forall>p\<in>set ?types. distinct (map fst (snd p))"
    using Cons.prems(2) by (intro dd_update_values) (simp_all add: dd_update_distinct)
  ultimately show ?case unfolding ev using Cons.IH [of ?types] by simp
qed

lemma names_loop_keys:
  assumes "names_loop h types names = Inr types'"
    and "distinct (map fst types)" and "\<forall>p\<in>set types. distinct (map fst (snd p))"
  shows "distinct (map fst types') \<and> (\<forall>p\<in>set types'. distinct (map fst (snd p)))"
  using assms
proof (induction names arbitrary: types)
  case Nil
  then show ?case by simp
next
  case (Cons p names)
  obtain m g where p: "p = (m, g)" by (cases p)
  from Cons.prems(1) p obtain evs where
    r: "names_loop h (extend_types types evs) names = Inr types'"
    by (auto split: sum.splits)
  from extend_types_keys [OF Cons.prems(2,3), of evs] Cons.IH [OF r] show ?case by blast
qed

lemma symbols_loop_keys:
  assumes "symbols_loop py self zone types symbols = Inr types'"
    and "distinct (map fst types)" and "\<forall>p\<in>set types. distinct (map fst (snd p))"
  shows "distinct (map fst types') \<and> (\<forall>p\<in>set types'. distinct (map fst (snd p)))"
  using assms
proof (induction symbols arbitrary: types)
  case Nil
  then show ?case by simp
next
  case (Cons p symbols)
  obtain symbol names where p: "p = (symbol, names)" by (cases p)
  show ?case
  proof (cases "SYMBOL_MAP symbol :: (pylib \<Rightarrow> source \<Rightarrow> ('a, 'b) zone \<Rightarrow> string \<Rightarrow> line list \<Rightarrow> bool \<Rightarrow> py_error + event list) option")
    case None
    with Cons.prems(1) p have "symbols_loop py self zone types symbols = Inr types'" by simp
    from Cons.IH [OF this Cons.prems(2,3)] show ?thesis .
  next
    case (Some h)
    with Cons.prems(1) p obtain types1 where
      n1: "names_loop (\<lambda>name lines. h py self zone name lines False) types names = Inr types1"
      and r: "symbols_loop py self zone types1 symbols = Inr types'"
      by (auto split: sum.splits)
    from names_loop_keys [OF n1 Cons.prems(2,3)] Cons.IH [OF r] show ?thesis by blast
  qed
qed

lemma process_symbols_keys:
  assumes "process_symbols py self zone symbols = Inr (types, ttls)"
  shows "distinct (map fst types) \<and> (\<forall>p\<in>set types. distinct (map fst (snd p)))"
proof -
  from assms have "symbols_loop py self zone [] symbols = Inr types"
    by (auto simp: process_symbols_def split: sum.splits)
  from symbols_loop_keys [OF this] show ?thesis by simp
qed

lemma dd_get_member:
  "dd_get d k dflt \<noteq> dflt \<Longrightarrow> (k, dd_get d k dflt) \<in> set d"
  by (auto simp: dd_get_def split: option.splits dest: map_of_SomeD)

lemma filter_unique_key:
  "distinct (map fst d) \<Longrightarrow> (k, v) \<in> set d \<Longrightarrow> filter (\<lambda>p. fst p = k) d = [(k, v)]"
proof (induction d)
  case Nil
  then show ?case by simp
next
  case (Cons p d)
  show ?case
  proof (cases "p = (k, v)")
    case True
    with Cons.prems(1) have "k \<notin> fst ` set d" by simp
    then have "\<forall>q\<in>set d. fst q \<noteq> k" by force
    then have "filter (\<lambda>p. fst p = k) d = []" by (simp add: filter_empty_conv)
    with True show ?thesis by simp
  next
    case False
    with Cons.prems(2) have m: "(k, v) \<in> set d" by simp
    then have "k \<in> fst ` set d" by force
    with Cons.prems(1) have "fst p \<noteq> k" by auto
    with Cons.IH m Cons.prems(1) show ?thesis by simp
  qed
qed

lemma tokenize_nonempty: "tokenize body \<noteq> []"
proof -
  have "\<And>s. py_split (CHR '':'') s \<noteq> []"
  proof -
    fix s show "py_split (CHR '':'') s \<noteq> []" by (induction s) (auto split: list.splits)
  qed
  then show ?thesis by (simp add: tokenize_def)
qed

lemma lines_loop_groups:
  assumes "lines_loop zone data lines = Inr data'"
  shows "dd_get (dd_get data' symbol []) n [] =
           dd_get (dd_get data symbol []) n []
             @ map (\<lambda>l. tokenize (tl l))
                 (filter (\<lambda>l. hd l = symbol
                              \<and> name_re_match (zone_name zone) (hd (tokenize (tl l)))
                              \<and> hostname_from_fqdn zone (hd (tokenize (tl l))) = n) lines)"
  using assms
proof (induction lines arbitrary: data)
  case Nil
  then show ?case by simp
next
  case (Cons l lines)
  from Cons.prems obtain sy body where l: "l = sy # body" by (cases l) auto
  obtain nm rest where tok: "tokenize body = nm # rest"
    using tokenize_nonempty [of body] by (cases "tokenize body") auto
  show ?case
  proof (cases "name_re_match (zone_name zone) nm")
    case False
    with Cons.prems l tok have "lines_loop zone data lines = Inr data'"
      by (simp add: py_index_def)
    from Cons.IH [OF this] False l tok show ?thesis by simp
  next
    case True
    let ?data = "dd_update sy [] (dd_update (hostname_from_fqdn zone nm) [] (\<lambda>ls. ls @ [nm # rest])) data"
    from True Cons.prems l tok have "lines_loop zone ?data lines = Inr data'"
      by (simp add: py_index_def)
    from Cons.IH [OF this] True l tok show ?thesis
      by (simp add: dd_get_update)
  qed
qed

lemma plus_lines_in_any_file:
  assumes "a1 \<noteq> ''0.0.0.0''" and "a2 \<noteq> ''0.0.0.0''"
    and "process_lines zone lines = Inr symbols"
    and "process_symbols py self zone symbols = Inr (types, ttls)"
    and "map (\<lambda>l. tokenize (tl l))
           (filter (\<lambda>l. hd l = CHR ''+''
                        \<and> name_re_match (zone_name zone) (hd (tokenize (tl l)))
                        \<and> hostname_from_fqdn zone (hd (tokenize (tl l))) = name) lines)
         = [n1 # a1 # rest1, n2 # a2 # rest2]"
  shows "\<exists>names_A pre post.
           filter (\<lambda>p. fst p = ''A'') types = [(''A'', names_A)]
         \<and> filter (\<lambda>p. fst p = name) names_A = [(name, pre @ [Str a1, Str a2] @ post)]"
proof -
  let ?g = "[n1 # a1 # rest1, n2 # a2 # rest2]"
  from assms(3) have "lines_loop zone [] lines = Inr symbols" by (simp add: process_lines_def)
  from lines_loop_groups [OF this, of "CHR ''+''" name] assms(5)
  have g: "dd_get (dd_get symbols (CHR ''+'') []) name [] = ?g" by (simp add: dd_get_def)
  then have "dd_get symbols (CHR ''+'') [] \<noteq> []" by (auto simp: dd_get_def)
  from dd_get_member [OF this] have m1: "(CHR ''+'', dd_get symbols (CHR ''+'') []) \<in> set symbols" .
  from g have "dd_get (dd_get symbols (CHR ''+'') []) name [] \<noteq> []" by simp
  from dd_get_member [OF this] g have m2: "(name, ?g) \<in> set (dd_get symbols (CHR ''+'') [])" by simp
  from plus_group_in_any_file [OF assms(1,2,4) m1 m2] obtain pre post where
    v: "dd_get (dd_get types ''A'' []) name [] = pre @ [Str a1, Str a2] @ post" by blast
  from process_symbols_keys [OF assms(4)] have
    d1: "distinct (map fst types)" and d2: "\<forall>p\<in>set types. distinct (map fst (snd p))" by simp_all
  from v have "dd_get types ''A'' [] \<noteq> []" by (auto simp: dd_get_def)
  from dd_get_member [OF this] have t1: "(''A'', dd_get types ''A'' []) \<in> set types" .
  from v have "dd_get (dd_get types ''A'' []) name [] \<noteq> []" by simp
  from dd_get_member [OF this] v
  have t2: "(name, pre @ [Str a1, Str a2] @ post) \<in> set (dd_get types ''A'' [])" by simp
  from d2 t1 have d3: "distinct (map fst (dd_get types ''A'' []))" by force
  from filter_unique_key [OF d1 t1] filter_unique_key [OF d3 t2] show ?thesis by blast
qed

text \<open>
  Two \<^verbatim>\<open>+\<close> lines of one owner name with addresses other than the placeholder, where the
  TTL field of the first line is absent or an integer (any other text makes the TTL
  scan raise ValueError, see below). The addresses may be equal: values are
  concatenated, never deduplicated.

  First, for a file of just these two lines: both names pass the filter of the zone
  (whose name is of letters, digits, \<^verbatim>\<open>-\<close>, \<^verbatim>\<open>_\<close> and dots) and have the same zone-relative
  name. Then the lines form one group, the group gives the A values \<open>[a1, a2]\<close>, and
  \<^verbatim>\<open>_populate_normal\<close> makes one call of \<^verbatim>\<open>Record.new\<close>, for this name, with these values and
  the default TTL, and adds the record to the zone.

  Second, for any file in which the \<^verbatim>\<open>+\<close> lines of the name that pass the filter are these
  two, in this order: whenever grouping and dispatch end without an exception, the
  collected values have exactly one entry for the type A, and this has exactly one
  entry for the name, whose values hold \<open>a1\<close> and \<open>a2\<close> next to each other in this order
  (other symbols may have contributed values before and after them).
\<close>

lemma two_plus_lines_merged:
  assumes "dns_name (zone_name zone)"
    and "source_lines self = [CHR ''+'' # body1, CHR ''+'' # body2]"
    and "tokenize body1 = n1 # a1 # rest1" and "tokenize body2 = n2 # a2 # rest2"
    and "name_re_match (zone_name zone) n1" and "name_re_match (zone_name zone) n2"
    and "hostname_from_fqdn zone n1 = name" and "hostname_from_fqdn zone n2 = name"
    and "a1 \<noteq> ''0.0.0.0''" and "a2 \<noteq> ''0.0.0.0''"
    and "rest1 = [] \<or> py_int (hd rest1) \<noteq> None"
  shows "process_lines zone (source_lines self)
           = Inr [(CHR ''+'', [(name, [n1 # a1 # rest1, n2 # a2 # rest2])])]
       \<and> process_symbols py self zone [(CHR ''+'', [(name, [n1 # a1 # rest1, n2 # a2 # rest2])])]
           = Inr ([(''A'', [(name, [Str a1, Str a2])])], [])
       \<and> populate_normal py self zone lenient =
           (case Record_new zone name
                   \<lparr>data_ttl = TtlInt (default_ttl self), data_type = ''A'',
                    data_payload = Values [Str a1, Str a2]\<rparr> None lenient of
              Inl e \<Rightarrow> (zone, Some e)
            | Inr r \<Rightarrow>
                (case add_record zone (zone_records zone) r lenient of
                   Inl e \<Rightarrow> (zone, if e = SubzoneRecordException then None else Some e)
                 | Inr recs \<Rightarrow> (zone\<lparr>zone_records := recs\<rparr>, None)))
       \<and> (\<forall>lines symbols types ttls.
            process_lines zone lines = Inr symbols \<longrightarrow>
            process_symbols py self zone symbols = Inr (types, ttls) \<longrightarrow>
            map (\<lambda>l. tokenize (tl l))
              (filter (\<lambda>l. hd l = CHR ''+''
                           \<and> name_re_match (zone_name zone) (hd (tokenize (tl l)))
                           \<and> hostname_from_fqdn zone (hd (tokenize (tl l))) = name) lines)
              = [n1 # a1 # rest1, n2 # a2 # rest2] \<longrightarrow>
            (\<exists>names_A pre post.
               filter (\<lambda>p. fst p = ''A'') types = [(''A'', names_A)]
             \<and> filter (\<lambda>p. fst p = name) names_A = [(name, pre @ [Str a1, Str a2] @ post)]))"
proof -
  have l: "process_lines zone (source_lines self)
           = Inr [(CHR ''+'', [(name, [n1 # a1 # rest1, n2 # a2 # rest2])])]"
    using assms(2-8) by (simp add: process_lines_def py_index_def)
  have s: "process_symbols py self zone [(CHR ''+'', [(name, [n1 # a1 # rest1, n2 # a2 # rest2])])]
           = Inr ([(''A'', [(name, [Str a1, Str a2])])], [])"
    by (simp add: process_symbols_def SYMBOL_MAP_def plus_two_lines [OF assms(9-11)])
  have d: "normal_data self [] ''A'' name [Str a1, Str a2]
           = Inr \<lparr>data_ttl = TtlInt (default_ttl self), data_type = ''A'',
                    data_payload = Values [Str a1, Str a2]\<rparr>"
    by (simp add: normal_data_def dd_get_def)
  have p: "populate_normal py self zone lenient =
           (case Record_new zone name
                   \<lparr>data_ttl = TtlInt (default_ttl self), data_type = ''A'',
                    data_payload = Values [Str a1, Str a2]\<rparr> None lenient of
              Inl e \<Rightarrow> (zone, Some e)
            | Inr r \<Rightarrow>
                (case add_record zone (zone_records zone) r lenient of
                   Inl e \<Rightarrow> (zone, if e = SubzoneRecordException then None else Some e)
                 | Inr recs \<Rightarrow> (zone\<lparr>zone_records := recs\<rparr>, None)))"
    unfolding populate_normal_def l
    by (simp add: s d split: sum.splits)
  have g: "\<forall>lines symbols types ttls.
            process_lines zone lines = Inr symbols \<longrightarrow>
            process_symbols py self zone symbols = Inr (types, ttls) \<longrightarrow>
            map (\<lambda>l. tokenize (tl l))
              (filter (\<lambda>l. hd l = CHR ''+''
                           \<and> name_re_match (zone_name zone) (hd (tokenize (tl l)))
                           \<and> hostname_from_fqdn zone (hd (tokenize (tl l))) = name) lines)
              = [n1 # a1 # rest1, n2 # a2 # rest2] \<longrightarrow>
            (\<exists>names_A pre post.
               filter (\<lambda>p. fst p = ''A'') types = [(''A'', names_A)]
             \<and> filter (\<lambda>p. fst p = name) names_A = [(name, pre @ [Str a1, Str a2] @ post)])"
  proof (intro allI impI)
    fix lines symbols types ttls
    assume 1: "process_lines zone lines = Inr symbols"
      and 2: "process_symbols py self zone symbols = Inr (types, ttls)"
      and 3: "map (\<lambda>l. tokenize (tl l))
              (filter (\<lambda>l. hd l = CHR ''+''
                           \<and> name_re_match (zone_name zone) (hd (tokenize (tl l)))
                           \<and> hostname_from_fqdn zone (hd (tokenize (tl l))) = name) lines)
              = [n1 # a1 # rest1, n2 # a2 # rest2]"
    from plus_lines_in_any_file [OF assms(9,10) 1 2 3]
    show "\<exists>names_A pre post.
               filter (\<lambda>p. fst p = ''A'') types = [(''A'', names_A)]
             \<and> filter (\<lambda>p. fst p = name) names_A = [(name, pre @ [Str a1, Str a2] @ post)]" .
  qed
  from l s p g show ?thesis by blast
qed

lemma two_plus_lines_merged_example:
  "populate_normal example_pylib
     (example_source 3600 (''+a.example.com:192.0.2.1:300'' @ ''\<newline>'' @ ''+a.example.com:192.0.2.2''))
     (example_zone ''example.com.'') False
   = ((example_zone ''example.com.'')
        \<lparr>zone_records := [(''a'', \<lparr>data_ttl = TtlInt 3600, data_type = ''A'',
                                  data_payload = Values [Str ''192.0.2.1'', Str ''192.0.2.2'']\<rparr>)]\<rparr>,
      None)"
proof -
  let ?z = "example_zone ''example.com.''"
  let ?s = "example_source 3600 (''+a.example.com:192.0.2.1:300'' @ ''\<newline>'' @ ''+a.example.com:192.0.2.2'')"
  have zn: "zone_name ?z = ''example.com.''" by (simp add: example_zone_def)
  have h1: "dns_name (zone_name ?z)" unfolding zn by (simp add: dns_name_def dns_char_def)
  have h2: "source_lines ?s = [CHR ''+'' # ''a.example.com:192.0.2.1:300'', CHR ''+'' # ''a.example.com:192.0.2.2'']"
    by (simp add: example_source_def file_source_lines_def)
  have h3: "tokenize ''a.example.com:192.0.2.1:300'' = ''a.example.com'' # ''192.0.2.1'' # [''300'']"
    by code_simp
  have h4: "tokenize ''a.example.com:192.0.2.2'' = ''a.example.com'' # ''192.0.2.2'' # []"
    by code_simp
  have h5: "name_re_match (zone_name ?z) ''a.example.com''" unfolding zn by code_simp
  have h7: "hostname_from_fqdn ?z ''a.example.com'' = ''a''" by code_simp
  have h9: "''192.0.2.1'' \<noteq> ''0.0.0.0''" "''192.0.2.2'' \<noteq> ''0.0.0.0''" by simp_all
  have h11: "[''300''] = [] \<or> py_int (hd [''300'']) \<noteq> None" by code_simp
  show ?thesis
    using two_plus_lines_merged [OF h1 h2 h3 h4 h5 h5 h7 h7 h9 h11, of example_pylib False]
    by (simp add: example_zone_def example_source_def)
qed

text \<open>
  Claim C5: two \<^verbatim>\<open>+\<close> lines of one owner name with distinct addresses other than the
  placeholder give exactly one A record, whose values hold the two addresses in the
  order of the file. The code does not always do this. The TTL scan of the handler
  converts the third field of the first line with \<^verbatim>\<open>int\<close> and catches IndexError only, so
  a TTL field that is present but empty, as in \<^verbatim>\<open>+fqdn:ip::timestamp\<close> (the form
  \<^verbatim>\<open>+fqdn:ip:ttl:timestamp:lo\<close> of the handler's comment with the TTL left out), raises
  ValueError, although the scan is there to "see if we can find a ttl on any of the
  lines" and its result is never used. For the zone \<^verbatim>\<open>example.com.\<close> and the two lines
  \<^verbatim>\<open>+a.example.com:192.0.2.1::4000000038af1379\<close> and \<^verbatim>\<open>+a.example.com:192.0.2.2\<close>, the
  population ends with ValueError and the zone has no record, where the same lines
  without the timestamp give one A record with both addresses.
\<close>

theorem two_plus_lines_empty_ttl:
  "snd (populate example_pylib
      (example_source 3600
         (''+a.example.com:192.0.2.1::4000000038af1379'' @ ''\<newline>'' @ ''+a.example.com:192.0.2.2''))
      (example_zone ''example.com.'') False) = Some ValueError
   \<and> zone_records (fst (populate example_pylib
      (example_source 3600
         (''+a.example.com:192.0.2.1::4000000038af1379'' @ ''\<newline>'' @ ''+a.example.com:192.0.2.2''))
      (example_zone ''example.com.'') False)) = []
   \<and> zone_records (fst (populate example_pylib
      (example_source 3600
         (''+a.example.com:192.0.2.1'' @ ''\<newline>'' @ ''+a.example.com:192.0.2.2''))
      (example_zone ''example.com.'') False))
     = [(''a'', \<lparr>data_ttl = TtlInt 3600, data_type = ''A'',
                 data_payload = Values [Str ''192.0.2.1'', Str ''192.0.2.2'']\<rparr>)]"
  by code_simp

end
